theory Spec2Isabelle
  imports Complex_Main
begin

section \<open>The reversal-learning task of utils/env.py\<close>

text \<open>
  A shallow embedding of the class \<open>ReversalLearningTask\<close> and of the factory
  \<open>create_biased_choice_worlds\<close>.

  Conventions of the embedding.
  \<^item> Python exceptions are values of \<open>py_error\<close>; a call that raises returns \<open>Inl\<close>.
  \<^item> The draws of numpy's global random generator are explicit arguments: the record
    \<open>rng\<close> holds the value of the i-th call of \<open>np.random.geometric\<close> and the value
    of the single call of \<open>np.random.choice(['left', 'right'])\<close>.
  \<^item> The stimulus creator is a field of the task, as in the source. It is an external
    collaborator that samples at random, so it takes the number of the call as its first
    argument: two calls with equal arguments may return different blocks.
  \<^item> Tensors and numpy arrays are lists; an index read or write past the end raises
    \<open>IndexError\<close>. Floats are real numbers: rounding is not modelled.
  \<^item> The fields that \<open>__init__\<close> sets to \<open>None\<close> and \<open>reset\<close> fills are the
    record \<open>episode\<close>; the task holds \<open>None\<close> until the first \<open>reset\<close>.
\<close>

datatype py_error = IndexError | ValueError | TypeError | TargetOutOfBounds

datatype side = Left | Right

record 's block_output =
  sampled_stimuli :: "'s list"
  sampled_sides :: "int list"
  sampled_strengths :: "real list"

record rng =
  geometric :: "nat \<Rightarrow> int"
  choice :: side

record ('s, 'h) episode =
  num_trials_per_block :: "int list"
  stimuli_block_number :: "int list"
  trial_num_within_block :: "int list"
  stimuli :: "'s list"
  stimuli_sides :: "int list"
  stimuli_strengths :: "real list"
  stimuli_preferred_sides :: "real list"
  rewards :: "real list"
  actions :: "(real \<times> real) list"
  model_hidden_states :: "'h list"
  current_trial_idx :: nat
  total_num_trials :: int

record ('s, 'h) task =
  stimulus_creator :: "nat \<Rightarrow> int \<Rightarrow> real list \<Rightarrow> 's block_output"
  num_blocks :: int
  block_duration_param :: real
  side_bias_probs :: "side \<Rightarrow> real list"
  state :: "('s, 'h) episode option"

record info =
  stimulus_side :: int
  stimulus_strength :: real

record 's step_output =
  stimulus :: 's
  reward :: real
  info :: "info option"
  done_flag :: bool

subsection \<open>Construction\<close>

text \<open>
  \<open>__init__\<close> (lines 61-98). An omitted keyword argument is \<open>None\<close>; the defaults of
  \<open>num_blocks\<close> and \<open>block_duration_param\<close> are 10 and 1/60.
\<close>

definition init ::
  "(nat \<Rightarrow> int \<Rightarrow> real list \<Rightarrow> 's block_output) \<Rightarrow> int option \<Rightarrow> real option \<Rightarrow>
   real list option \<Rightarrow> real list option \<Rightarrow> ('s, 'h) task" where
  "init creator nb param left_bias_probs right_bias_probs =
     (let right_bias_probs = (case right_bias_probs of None \<Rightarrow> [0.8, 0.2] | Some p \<Rightarrow> p);
          left_bias_probs = (case left_bias_probs of None \<Rightarrow> [0.2, 0.8] | Some p \<Rightarrow> p)
      in \<lparr> stimulus_creator = creator,
           num_blocks = (case nb of None \<Rightarrow> 10 | Some n \<Rightarrow> n),
           block_duration_param = (case param of None \<Rightarrow> 1 / 60 | Some p \<Rightarrow> p),
           side_bias_probs = (\<lambda>s. case s of Left \<Rightarrow> left_bias_probs | Right \<Rightarrow> right_bias_probs),
           state = None \<rparr>)"

text \<open>
  The environment that \<open>make_env\<close> builds inside \<open>create_biased_choice_worlds\<close>
  (lines 43-53): the task constructed from the factory's keyword arguments.
\<close>

definition create_biased_choice_worlds_env ::
  "(nat \<Rightarrow> int \<Rightarrow> real list \<Rightarrow> 's block_output) \<Rightarrow> ('s, 'h) task" where
  "create_biased_choice_worlds_env creator =
     init creator (Some 100) None (Some [0.8, 0.2]) (Some [0.2, 0.8])"

subsection \<open>Reset\<close>

text \<open>
  One pass of the loop of lines 115-120: both tests read the value that was at index
  \<open>i\<close> before the pass.
\<close>

definition truncate_at :: "int list \<Rightarrow> nat \<Rightarrow> int list" where
  "truncate_at xs i =
     (let num_trials = xs ! i;
          xs1 = (if num_trials < 20 then xs[i := 20] else xs);
          xs2 = (if num_trials > 100 then xs1[i := 100] else xs1)
      in xs2)"

definition truncate_blocks :: "int list \<Rightarrow> int list" where
  "truncate_blocks xs = foldl truncate_at xs [0..<length xs]"

text \<open>numpy: \<open>np.concatenate\<close> of an empty list of arrays raises \<open>ValueError\<close>.\<close>

definition np_concatenate :: "'a list list \<Rightarrow> py_error + 'a list" where
  "np_concatenate xss = (if xss = [] then Inl ValueError else Inr (concat xss))"

text \<open>\<open>np.arange(a, b)\<close> on integers, and \<open>np.full(shape=n, fill_value=v)\<close>.\<close>

definition np_arange :: "int \<Rightarrow> int \<Rightarrow> int list" where
  "np_arange a b = [a..b - 1]"

definition np_full :: "int \<Rightarrow> 'a \<Rightarrow> 'a list" where
  "np_full n v = replicate (nat n) v"

text \<open>
  The loop of lines 132-142. \<open>k\<close> counts the calls of the stimulus creator,
  \<open>curr_preferred_side\<close> is toggled after each block, and the four accumulators are the
  lists \<open>blocks_stimuli\<close>, \<open>blocks_stimuli_sides\<close>, \<open>blocks_stimuli_strengths\<close> and
  \<open>blocks_preferred_sides\<close>, returned in this order.
\<close>

fun create_blocks ::
  "(nat \<Rightarrow> int \<Rightarrow> real list \<Rightarrow> 's block_output) \<Rightarrow> (side \<Rightarrow> real list) \<Rightarrow> nat \<Rightarrow> side \<Rightarrow>
   's list list \<Rightarrow> int list list \<Rightarrow> real list list \<Rightarrow> real list list \<Rightarrow> int list \<Rightarrow>
   's list list \<times> int list list \<times> real list list \<times> real list list" where
  "create_blocks creator probs k curr_preferred_side bs bsd bst bp [] = (bs, bsd, bst, bp)"
| "create_blocks creator probs k curr_preferred_side bs bsd bst bp (block_num_trials # rest) =
     (let output = creator k block_num_trials (probs curr_preferred_side);
          bp' = bp @ [np_full block_num_trials (if curr_preferred_side = Left then - 1 else 1)];
          curr' = (if curr_preferred_side = Left then Right else Left)
      in create_blocks creator probs (Suc k) curr'
           (bs @ [sampled_stimuli output]) (bsd @ [sampled_sides output])
           (bst @ [sampled_strengths output]) bp' rest)"

text \<open>Reading and writing a tensor at an index that is never negative.\<close>

definition tensor_get :: "'a list \<Rightarrow> nat \<Rightarrow> py_error + 'a" where
  "tensor_get xs i = (if i < length xs then Inr (xs ! i) else Inl IndexError)"

definition tensor_set :: "'a list \<Rightarrow> nat \<Rightarrow> 'a \<Rightarrow> py_error + 'a list" where
  "tensor_set xs i v = (if i < length xs then Inr (xs[i := v]) else Inl IndexError)"

text \<open>
  \<open>reset\<close> (lines 105-162). numpy's \<open>geometric\<close> raises \<open>ValueError\<close> unless its
  parameter lies in (0, 1]; it is called once per block, so not at all when
  \<open>num_blocks\<close> is not positive. What the fields of the task hold after a call that
  raised is not modelled: the result is then the error alone.
\<close>

definition reset :: "rng \<Rightarrow> ('s, 'h) task \<Rightarrow> py_error + (('s, 'h) task \<times> 's step_output)" where
  "reset g self =
     (if 0 < num_blocks self \<and> \<not> (0 < block_duration_param self \<and> block_duration_param self \<le> 1)
      then Inl ValueError
      else
       (let npb = truncate_blocks (map (geometric g) [0..<nat (num_blocks self)]) in
        (case np_concatenate (map (\<lambda>(nt, i). np_full nt i)
                                (zip npb (np_arange 1 (1 + int (length npb))))) of
          Inl e \<Rightarrow> Inl e
        | Inr block_number \<Rightarrow>
        (case np_concatenate (map (\<lambda>nt. np_arange 1 (1 + nt)) npb) of
          Inl e \<Rightarrow> Inl e
        | Inr within_block \<Rightarrow>
        (let total = sum_list npb in
        (case create_blocks (stimulus_creator self) (side_bias_probs self) 0 (choice g)
                [] [] [] [] npb of
          (bs, bsd, bst, bp) \<Rightarrow>
        (case np_concatenate bs of Inl e \<Rightarrow> Inl e | Inr st \<Rightarrow>
        (case np_concatenate bsd of Inl e \<Rightarrow> Inl e | Inr sides \<Rightarrow>
        (case np_concatenate bp of Inl e \<Rightarrow> Inl e | Inr preferred \<Rightarrow>
        (case np_concatenate bst of Inl e \<Rightarrow> Inl e | Inr strengths \<Rightarrow>
        (let ep = \<lparr> num_trials_per_block = npb,
                    stimuli_block_number = block_number,
                    trial_num_within_block = within_block,
                    stimuli = st,
                    stimuli_sides = sides,
                    stimuli_strengths = strengths,
                    stimuli_preferred_sides = preferred,
                    rewards = replicate (nat total) 0,
                    actions = replicate (nat total) (0, 0),
                    model_hidden_states = [],
                    current_trial_idx = 0,
                    total_num_trials = total \<rparr>
         in
         (case tensor_get (stimuli ep) (current_trial_idx ep) of
            Inl e \<Rightarrow> Inl e
          | Inr s0 \<Rightarrow>
              Inr (self\<lparr>state := Some ep\<rparr>,
                   \<lparr> stimulus = s0, reward = 0, info = None,
                     done_flag = (int (current_trial_idx ep) = total_num_trials ep) \<rparr>)))))))))))))"

subsection \<open>Step\<close>

text \<open>
  torch's \<open>NLLLoss\<close> with the default mean reduction, on a batch of one sample with two
  classes: the loss is minus the input's component at the target. A target that is not
  a class index has no loss; the model returns an error for it.
\<close>

definition NLLLoss :: "int \<Rightarrow> real \<times> real \<Rightarrow> py_error + real" where
  "NLLLoss target inp =
     (if target = 0 then Inr (- fst inp)
      else if target = 1 then Inr (- snd inp)
      else Inl TargetOutOfBounds)"

text \<open>
  \<open>step\<close> (lines 164-200). The action distribution has two components (the comment of
  line 168), so its reshaping is the identity. The task is returned beside the result
  also when an exception is raised, with the writes made before the raise. Before the
  first \<open>reset\<close> the fields are \<open>None\<close> and subscripting raises \<open>TypeError\<close>.
\<close>

definition step ::
  "('s, 'h) task \<Rightarrow> real \<times> real \<Rightarrow> 'h \<Rightarrow> ('s, 'h) task \<times> (py_error + 's step_output)" where
  "step self model_softmax_output model_hidden =
     (case state self of
        None \<Rightarrow> (self, Inl TypeError)
      | Some ep \<Rightarrow>
       (case tensor_get (stimuli_sides ep) (current_trial_idx ep) of
          Inl e \<Rightarrow> (self, Inl e)
        | Inr sd \<Rightarrow>
       (case NLLLoss ((sd + 1) div 2) model_softmax_output of
          Inl e \<Rightarrow> (self, Inl e)
        | Inr loss \<Rightarrow>
       (let r = - loss in
       (case tensor_set (rewards ep) (current_trial_idx ep) r of
          Inl e \<Rightarrow> (self, Inl e)
        | Inr rewards' \<Rightarrow>
       (let ep1 = ep\<lparr>rewards := rewards'\<rparr> in
       (case tensor_set (actions ep1) (current_trial_idx ep1) model_softmax_output of
          Inl e \<Rightarrow> (self\<lparr>state := Some ep1\<rparr>, Inl e)
        | Inr actions' \<Rightarrow>
       (let ep2 = ep1\<lparr>actions := actions'\<rparr>;
            ep3 = ep2\<lparr>model_hidden_states := model_hidden_states ep2 @ [model_hidden]\<rparr>;
            ep4 = ep3\<lparr>current_trial_idx := current_trial_idx ep3 + 1\<rparr>;
            self' = self\<lparr>state := Some ep4\<rparr>
        in
       (case tensor_get (stimuli ep4) (current_trial_idx ep4) of
          Inl e \<Rightarrow> (self', Inl e)
        | Inr st \<Rightarrow>
       (case tensor_get (stimuli_sides ep4) (current_trial_idx ep4) of
          Inl e \<Rightarrow> (self', Inl e)
        | Inr st_side \<Rightarrow>
       (case tensor_get (stimuli_strengths ep4) (current_trial_idx ep4) of
          Inl e \<Rightarrow> (self', Inl e)
        | Inr st_strength \<Rightarrow>
            (self', Inr \<lparr> stimulus = st, reward = r,
                          info = Some \<lparr> stimulus_side = st_side,
                                        stimulus_strength = st_strength \<rparr>,
                          done_flag =
                            (int (current_trial_idx ep4) + 1 = total_num_trials ep4) \<rparr>))))))))))))"

text \<open>
  A caller that makes one \<open>step\<close> call per element of a list of decisions and stops at
  the first exception; it returns the task and the outputs of the calls.
\<close>

fun step_calls ::
  "('s, 'h) task \<Rightarrow> ((real \<times> real) \<times> 'h) list \<Rightarrow> ('s, 'h) task \<times> (py_error + 's step_output list)" where
  "step_calls self [] = (self, Inr [])"
| "step_calls self (d # ds) =
     (case step self (fst d) (snd d) of
        (self', Inl e) \<Rightarrow> (self', Inl e)
      | (self', Inr out) \<Rightarrow>
          (case step_calls self' ds of
             (self'', Inl e) \<Rightarrow> (self'', Inl e)
           | (self'', Inr outs) \<Rightarrow> (self'', Inr (out # outs))))"

subsection \<open>Example inputs\<close>

text \<open>
  A stimulus creator that returns, for the k-th call, the stimuli \<open>1000 k + i\<close>, a side
  that depends on the parity of \<open>k\<close> and strength 1; draws 5, 250, 57, 57, ... of the
  geometric sampler; and a task of three blocks built from them with the default
  arguments.
\<close>

definition example_creator :: "nat \<Rightarrow> int \<Rightarrow> real list \<Rightarrow> nat block_output" where
  "example_creator k n p =
     \<lparr> sampled_stimuli = map (\<lambda>i. 1000 * k + i) [0..<nat n],
       sampled_sides = replicate (nat n) (if even k then 1 else - 1),
       sampled_strengths = replicate (nat n) 1 \<rparr>"

definition example_rng :: rng where
  "example_rng = \<lparr> geometric = (\<lambda>i. if i = 0 then 5 else if i = 1 then 250 else 57),
                   choice = Left \<rparr>"

definition example_task :: "(nat, nat) task" where
  "example_task = init example_creator (Some 3) None None None"

text \<open>
  A task of one block from the same creator: with the draws above the block has its
  draw 5 raised to 20, so the episode has exactly 20 trials.
\<close>

definition example_task_20 :: "(nat, nat) task" where
  "example_task_20 = init example_creator (Some 1) None None None"

subsection \<open>The preferred side of a block\<close>

text \<open>
  The value of \<open>curr_preferred_side\<close> when the loop of lines 132-142 reaches the block
  of index \<open>i\<close>, given the value drawn at line 129: it was toggled \<open>i\<close> times. The loop
  itself is \<open>create_blocks\<close>; lemma \<open>create_blocks_eq\<close> relates the two.
\<close>

definition preferred_side_of_block :: "side \<Rightarrow> nat \<Rightarrow> side" where
  "preferred_side_of_block first i =
     (if even i then first else if first = Left then Right else Left)"

section \<open>Properties\<close>

subsection \<open>The clamping loop\<close>

lemma truncate_at_nth:
  "i < length xs \<Longrightarrow>
   truncate_at xs i = xs[i := (if xs ! i > 100 then 100 else if xs ! i < 20 then 20 else xs ! i)]"
  by (simp add: truncate_at_def Let_def)

lemma foldl_truncate_at:
  "k \<le> length xs \<Longrightarrow>
   foldl truncate_at xs [0..<k] =
     map (\<lambda>n. if n > 100 then 100 else if n < 20 then 20 else n) (take k xs) @ drop k xs"
proof (induction k)
  case 0
  then show ?case by simp
next
  case (Suc k)
  then have k: "k < length xs" by simp
  let ?f = "\<lambda>n::int. if n > 100 then 100 else if n < 20 then 20 else n"
  have "foldl truncate_at xs [0..<Suc k] = truncate_at (map ?f (take k xs) @ drop k xs) k"
    using Suc by simp
  also have "\<dots> = (map ?f (take k xs) @ drop k xs)[k := ?f (xs ! k)]"
    using k by (subst truncate_at_nth) (simp_all add: nth_append)
  also have "\<dots> = map ?f (take k xs) @ (drop k xs)[0 := ?f (xs ! k)]"
    using k by (simp add: list_update_append)
  also have "drop k xs = xs ! k # drop (Suc k) xs"
    using k by (simp add: Cons_nth_drop_Suc)
  also have "map ?f (take k xs) @ (xs ! k # drop (Suc k) xs)[0 := ?f (xs ! k)]
      = map ?f (take (Suc k) xs) @ drop (Suc k) xs"
    using k by (simp add: take_Suc_conv_app_nth)
  finally show ?case .
qed

lemma truncate_blocks_map:
  "truncate_blocks xs = map (\<lambda>n. if n > 100 then 100 else if n < 20 then 20 else n) xs"
  by (simp add: truncate_blocks_def foldl_truncate_at)

lemma truncate_blocks_bounds:
  "n \<in> set (truncate_blocks xs) \<Longrightarrow> 20 \<le> n \<and> n \<le> 100"
  by (auto simp: truncate_blocks_map)

subsection \<open>The block loop\<close>

lemma preferred_side_of_block_Suc:
  "preferred_side_of_block cur (Suc i) =
   preferred_side_of_block (if cur = Left then Right else Left) i"
  by (cases cur) (simp_all add: preferred_side_of_block_def)

lemma preferred_side_of_block_0: "preferred_side_of_block cur 0 = cur"
  by (simp add: preferred_side_of_block_def)

lemma create_blocks_eq:
  "create_blocks c pr k cur bs bsd bst bp ns =
     (bs @ map (\<lambda>i. sampled_stimuli (c (k + i) (ns ! i)
                  (pr (preferred_side_of_block cur i)))) [0..<length ns],
      bsd @ map (\<lambda>i. sampled_sides (c (k + i) (ns ! i)
                  (pr (preferred_side_of_block cur i)))) [0..<length ns],
      bst @ map (\<lambda>i. sampled_strengths (c (k + i) (ns ! i)
                  (pr (preferred_side_of_block cur i)))) [0..<length ns],
      bp @ map (\<lambda>i. np_full (ns ! i)
                  (if preferred_side_of_block cur i = Left then - 1 else 1)) [0..<length ns])"
proof (induction ns arbitrary: k cur bs bsd bst bp)
  case Nil
  then show ?case by simp
next
  case (Cons n ns)
  show ?case
    by (simp add: Cons.IH Let_def map_upt_Suc preferred_side_of_block_Suc
          preferred_side_of_block_0 del: upt_Suc)
qed

lemma sum_list_nat_nonneg:
  "\<forall>n \<in> set ns. 0 \<le> n \<Longrightarrow> (\<Sum>n\<leftarrow>ns. nat n) = nat (sum_list ns)"
proof (induction ns)
  case Nil
  then show ?case by simp
next
  case (Cons n ns)
  then have "0 \<le> sum_list ns" by (simp add: sum_list_nonneg)
  with Cons show ?case by (simp add: nat_add_distrib)
qed

lemma length_concat_blocks:
  assumes "\<And>i. i < length ns \<Longrightarrow> length (f i) = nat (ns ! i)"
    and "\<forall>n \<in> set ns. 0 \<le> n"
  shows "length (concat (map f [0..<length ns])) = nat (sum_list ns)"
proof -
  have "map (length \<circ> f) [0..<length ns] = map (\<lambda>i. nat (ns ! i)) [0..<length ns]"
    using assms(1) by simp
  also have "\<dots> = map nat ns"
    by (rule nth_equalityI) simp_all
  finally have "map (length \<circ> f) [0..<length ns] = map nat ns" .
  then show ?thesis
    using sum_list_nat_nonneg [OF assms(2)] by (simp add: length_concat)
qed

subsection \<open>Default bias probabilities\<close>

text \<open>
  Claim C10. When the caller omits the bias-probability vectors, the constructor stores
  [0.2, 0.8] for the left preferred side and [0.8, 0.2] for the right one; the
  biased-choice-world factory passes [0.8, 0.2] for left and [0.2, 0.8] for right, so
  the defaults are the factory's vectors with the two sides exchanged (each is the
  reverse of the factory's vector for the same side).
\<close>

theorem default_bias_probs_mirror_factory:
  "side_bias_probs (init c nb p None None) Left = [0.2, 0.8]
   \<and> side_bias_probs (init c nb p None None) Right = [0.8, 0.2]
   \<and> side_bias_probs (create_biased_choice_worlds_env c') Left = [0.8, 0.2]
   \<and> side_bias_probs (create_biased_choice_worlds_env c') Right = [0.2, 0.8]
   \<and> side_bias_probs (init c nb p None None) Left
       = side_bias_probs (create_biased_choice_worlds_env c') Right
   \<and> side_bias_probs (init c nb p None None) Right
       = side_bias_probs (create_biased_choice_worlds_env c') Left
   \<and> side_bias_probs (init c nb p None None) Left
       = rev (side_bias_probs (create_biased_choice_worlds_env c') Left)
   \<and> side_bias_probs (init c nb p None None) Right
       = rev (side_bias_probs (create_biased_choice_worlds_env c') Right)"
  by (simp add: init_def create_biased_choice_worlds_env_def)

subsection \<open>What a returning reset leaves in the task\<close>

text \<open>
  The episode that \<open>reset\<close> builds from the draws \<open>g\<close>, written without the loops.
\<close>

lemma reset_Inr_D:
  assumes "reset g self = Inr (self', out)"
  shows "\<exists>ep. self' = self\<lparr>state := Some ep\<rparr>
     \<and> 0 < num_blocks self
     \<and> num_trials_per_block ep = truncate_blocks (map (geometric g) [0..<nat (num_blocks self)])
     \<and> stimuli_block_number ep = concat (map (\<lambda>(nt, i). np_full nt i)
           (zip (num_trials_per_block ep)
                (np_arange 1 (1 + int (length (num_trials_per_block ep))))))
     \<and> trial_num_within_block ep =
           concat (map (\<lambda>nt. np_arange 1 (1 + nt)) (num_trials_per_block ep))
     \<and> total_num_trials ep = sum_list (num_trials_per_block ep)
     \<and> stimuli ep = concat (map (\<lambda>i. sampled_stimuli (stimulus_creator self i
           (num_trials_per_block ep ! i)
           (side_bias_probs self (preferred_side_of_block (choice g) i))))
           [0..<length (num_trials_per_block ep)])
     \<and> stimuli_sides ep = concat (map (\<lambda>i. sampled_sides (stimulus_creator self i
           (num_trials_per_block ep ! i)
           (side_bias_probs self (preferred_side_of_block (choice g) i))))
           [0..<length (num_trials_per_block ep)])
     \<and> stimuli_strengths ep = concat (map (\<lambda>i. sampled_strengths (stimulus_creator self i
           (num_trials_per_block ep ! i)
           (side_bias_probs self (preferred_side_of_block (choice g) i))))
           [0..<length (num_trials_per_block ep)])
     \<and> stimuli_preferred_sides ep = concat (map (\<lambda>i. np_full (num_trials_per_block ep ! i)
           (if preferred_side_of_block (choice g) i = Left then - 1 else 1))
           [0..<length (num_trials_per_block ep)])
     \<and> rewards ep = replicate (nat (total_num_trials ep)) 0
     \<and> actions ep = replicate (nat (total_num_trials ep)) (0, 0)
     \<and> model_hidden_states ep = []
     \<and> current_trial_idx ep = 0
     \<and> stimuli ep \<noteq> []
     \<and> out = \<lparr> stimulus = stimuli ep ! 0, reward = 0, info = None,
               done_flag = (0 = total_num_trials ep) \<rparr>"
proof -
  let ?npb = "truncate_blocks (map (geometric g) [0..<nat (num_blocks self)])"
  have nb: "0 < num_blocks self"
  proof (rule ccontr)
    assume "\<not> 0 < num_blocks self"
    then have "reset g self = Inl ValueError"
      by (simp add: reset_def np_concatenate_def truncate_blocks_def)
    with assms show False by simp
  qed
  have p: "0 < block_duration_param self \<and> block_duration_param self \<le> 1"
  proof (rule ccontr)
    assume "\<not> ?thesis"
    with nb have "reset g self = Inl ValueError"
      by (simp add: reset_def)
    with assms show False by simp
  qed
  have ne: "?npb \<noteq> []"
    using nb by (simp add: truncate_blocks_map)
  have ar: "np_arange 1 (1 + int (length ?npb)) \<noteq> []"
    using ne by (simp add: np_arange_def upto.simps Suc_le_eq)
  define ep :: "('a, 'b) episode" where "ep =
    \<lparr> num_trials_per_block = ?npb,
      stimuli_block_number = concat (map (\<lambda>(nt, i). np_full nt i)
           (zip ?npb (np_arange 1 (1 + int (length ?npb))))),
      trial_num_within_block = concat (map (\<lambda>nt. np_arange 1 (1 + nt)) ?npb),
      stimuli = concat (map (\<lambda>i. sampled_stimuli (stimulus_creator self i (?npb ! i)
           (side_bias_probs self (preferred_side_of_block (choice g) i)))) [0..<length ?npb]),
      stimuli_sides = concat (map (\<lambda>i. sampled_sides (stimulus_creator self i (?npb ! i)
           (side_bias_probs self (preferred_side_of_block (choice g) i)))) [0..<length ?npb]),
      stimuli_strengths = concat (map (\<lambda>i. sampled_strengths (stimulus_creator self i (?npb ! i)
           (side_bias_probs self (preferred_side_of_block (choice g) i)))) [0..<length ?npb]),
      stimuli_preferred_sides = concat (map (\<lambda>i. np_full (?npb ! i)
           (if preferred_side_of_block (choice g) i = Left then - 1 else 1)) [0..<length ?npb]),
      rewards = replicate (nat (sum_list ?npb)) 0,
      actions = replicate (nat (sum_list ?npb)) (0, 0),
      model_hidden_states = [],
      current_trial_idx = 0,
      total_num_trials = sum_list ?npb \<rparr>"
  have eq: "reset g self =
      (if stimuli ep = [] then Inl IndexError
       else Inr (self\<lparr>state := Some ep\<rparr>,
                 \<lparr> stimulus = stimuli ep ! 0, reward = 0, info = None,
                   done_flag = (0 = total_num_trials ep) \<rparr>))"
    using nb p ne ar
    unfolding reset_def Let_def np_concatenate_def create_blocks_eq ep_def tensor_get_def
    by simp
  have st: "stimuli ep \<noteq> []"
    using assms unfolding eq by (simp split: if_splits)
  have res: "self' = self\<lparr>state := Some ep\<rparr>"
      "out = \<lparr> stimulus = stimuli ep ! 0, reward = 0, info = None,
               done_flag = (0 = total_num_trials ep) \<rparr>"
    using assms st unfolding eq by simp_all
  show ?thesis
    by (rule exI [of _ ep]) (use res st nb in \<open>simp add: ep_def\<close>)
qed

lemma sum_list_truncate_blocks_ge:
  "20 * int (length (truncate_blocks xs)) \<le> sum_list (truncate_blocks xs)"
  unfolding truncate_blocks_map by (induction xs) auto

lemma reset_Inl_D:
  assumes "reset g self = Inl e"
    and "0 < num_blocks self"
    and "0 < block_duration_param self" and "block_duration_param self \<le> 1"
  shows "concat (map (\<lambda>i. sampled_stimuli (stimulus_creator self i
           (truncate_blocks (map (geometric g) [0..<nat (num_blocks self)]) ! i)
           (side_bias_probs self (preferred_side_of_block (choice g) i))))
           [0..<length (truncate_blocks (map (geometric g) [0..<nat (num_blocks self)]))]) = []"
proof -
  let ?npb = "truncate_blocks (map (geometric g) [0..<nat (num_blocks self)])"
  have ne: "?npb \<noteq> []"
    using assms(2) by (simp add: truncate_blocks_map)
  have ar: "np_arange 1 (1 + int (length ?npb)) \<noteq> []"
    using ne by (simp add: np_arange_def upto.simps Suc_le_eq)
  show ?thesis
    using assms ne ar
    unfolding reset_def Let_def np_concatenate_def create_blocks_eq tensor_get_def
    by (simp split: if_splits)
qed

lemma reset_returns:
  assumes "0 < num_blocks self"
    and "0 < block_duration_param self" and "block_duration_param self \<le> 1"
    and len: "\<forall>k n p. length (sampled_stimuli (stimulus_creator self k n p)) = nat n"
  shows "\<exists>self' out. reset g self = Inr (self', out)"
proof (cases "reset g self")
  case (Inl e)
  let ?npb = "truncate_blocks (map (geometric g) [0..<nat (num_blocks self)])"
  let ?f = "\<lambda>i. sampled_stimuli (stimulus_creator self i (?npb ! i)
              (side_bias_probs self (preferred_side_of_block (choice g) i)))"
  have c: "concat (map ?f [0..<length ?npb]) = []"
    using reset_Inl_D [OF Inl assms(1-3)] .
  have l0: "length (concat (map ?f [0..<length ?npb])) = 0"
    by (simp only: c list.size)
  have l: "length (concat (map ?f [0..<length ?npb])) = nat (sum_list ?npb)"
    by (rule length_concat_blocks) (use len truncate_blocks_bounds in \<open>force+\<close>)
  have s: "20 * int (length ?npb) \<le> sum_list ?npb"
    by (rule sum_list_truncate_blocks_ge)
  have n: "0 < length ?npb"
    using assms(1) by (simp add: truncate_blocks_map)
  from l0 l s n have False by linarith
  then show ?thesis ..
next
  case (Inr r)
  then show ?thesis by (cases r) simp
qed

subsection \<open>Block lengths\<close>

text \<open>
  Claim C3. After a reset that returns, there is one block length per block, the i-th
  one computed from the i-th geometric draw alone: every length lies between 20 and 100;
  a draw below 20 gives exactly 20, a draw above 100 gives exactly 100, and a draw
  inside the interval (20 and 100 included) is kept as it is. No other draw is made.
\<close>

theorem reset_num_trials_per_block_clamped:
  assumes "reset g self = Inr (self', out)"
  shows "\<exists>ep. state self' = Some ep
     \<and> length (num_trials_per_block ep) = nat (num_blocks self)
     \<and> (\<forall>i < length (num_trials_per_block ep).
           20 \<le> num_trials_per_block ep ! i \<and> num_trials_per_block ep ! i \<le> 100
         \<and> (geometric g i < 20 \<longrightarrow> num_trials_per_block ep ! i = 20)
         \<and> (100 < geometric g i \<longrightarrow> num_trials_per_block ep ! i = 100)
         \<and> (20 \<le> geometric g i \<and> geometric g i \<le> 100
              \<longrightarrow> num_trials_per_block ep ! i = geometric g i))"
proof -
  from reset_Inr_D [OF assms] obtain ep where
    ep: "self' = self\<lparr>state := Some ep\<rparr>"
      "num_trials_per_block ep = truncate_blocks (map (geometric g) [0..<nat (num_blocks self)])"
    by blast
  show ?thesis
    by (rule exI [of _ ep]) (simp add: ep truncate_blocks_map)
qed

theorem reset_num_trials_per_block_clamped_witness:
  "\<exists>self' out ep. reset example_rng example_task = Inr (self', out)
     \<and> state self' = Some ep
     \<and> num_trials_per_block ep ! 0 = 20
     \<and> num_trials_per_block ep ! 1 = 100
     \<and> num_trials_per_block ep ! 2 = 57"
proof -
  have "\<exists>self' out. reset example_rng example_task = Inr (self', out)"
    by (rule reset_returns) (simp_all add: example_task_def init_def example_creator_def)
  then obtain self' out where r: "reset example_rng example_task = Inr (self', out)"
    by blast
  from reset_num_trials_per_block_clamped [OF r] obtain ep where
    ep: "state self' = Some ep" "length (num_trials_per_block ep) = 3"
    and all: "\<And>i. i < 3 \<Longrightarrow>
           (geometric example_rng i < 20 \<longrightarrow> num_trials_per_block ep ! i = 20)
         \<and> (100 < geometric example_rng i \<longrightarrow> num_trials_per_block ep ! i = 100)
         \<and> (20 \<le> geometric example_rng i \<and> geometric example_rng i \<le> 100
              \<longrightarrow> num_trials_per_block ep ! i = geometric example_rng i)"
    by (auto simp: example_task_def init_def)
  from all [of 0] all [of 1] all [of 2] ep r show ?thesis
    by (simp add: example_rng_def)
qed

subsection \<open>Lengths of the per-trial arrays\<close>

lemma length_np_arange: "length (np_arange 1 (1 + n)) = nat n"
  by (simp add: np_arange_def)

lemma length_concat_np_full_zip:
  "length ns = length js \<Longrightarrow>
   length (concat (map (\<lambda>(nt, i). np_full nt i) (zip ns js))) = (\<Sum>n\<leftarrow>ns. nat n)"
  by (induction ns js rule: list_induct2) (simp_all add: np_full_def)

lemma length_concat_np_arange:
  "length (concat (map (\<lambda>nt. np_arange 1 (1 + nt)) ns)) = (\<Sum>n\<leftarrow>ns. nat n)"
  by (induction ns) (simp_all add: length_np_arange)

lemma reset_total_ge_20:
  assumes "reset g self = Inr (self', out)" and "state self' = Some ep"
  shows "20 \<le> total_num_trials ep"
proof -
  from reset_Inr_D [OF assms(1)] assms(2) have
    nb: "0 < num_blocks self"
    and npb: "num_trials_per_block ep =
      truncate_blocks (map (geometric g) [0..<nat (num_blocks self)])"
    and tot: "total_num_trials ep = sum_list (num_trials_per_block ep)"
    by auto
  have "20 * int (length (num_trials_per_block ep)) \<le> total_num_trials ep"
    unfolding tot npb by (rule sum_list_truncate_blocks_ge)
  moreover have "0 < length (num_trials_per_block ep)"
    using nb by (simp add: npb truncate_blocks_map)
  ultimately show ?thesis by linarith
qed

text \<open>
  Claim C6. Assume the stimulus creator returns three sequences whose length is the
  requested number of trials. After a reset that returns, the block lengths add up to
  \<open>total_num_trials\<close>, and the eight per-trial arrays all have that length.
\<close>

theorem reset_array_lengths:
  assumes "reset g self = Inr (self', out)"
    and "\<forall>k n p. length (sampled_stimuli (stimulus_creator self k n p)) = nat n
                \<and> length (sampled_sides (stimulus_creator self k n p)) = nat n
                \<and> length (sampled_strengths (stimulus_creator self k n p)) = nat n"
  shows "\<exists>ep. state self' = Some ep
     \<and> sum_list (num_trials_per_block ep) = total_num_trials ep
     \<and> int (length (stimuli ep)) = total_num_trials ep
     \<and> int (length (stimuli_sides ep)) = total_num_trials ep
     \<and> int (length (stimuli_strengths ep)) = total_num_trials ep
     \<and> int (length (stimuli_preferred_sides ep)) = total_num_trials ep
     \<and> int (length (stimuli_block_number ep)) = total_num_trials ep
     \<and> int (length (trial_num_within_block ep)) = total_num_trials ep
     \<and> int (length (rewards ep)) = total_num_trials ep
     \<and> int (length (actions ep)) = total_num_trials ep"
proof -
  from reset_Inr_D [OF assms(1)] obtain ep where ep:
    "self' = self\<lparr>state := Some ep\<rparr>"
    "num_trials_per_block ep = truncate_blocks (map (geometric g) [0..<nat (num_blocks self)])"
    "stimuli_block_number ep = concat (map (\<lambda>(nt, i). np_full nt i)
           (zip (num_trials_per_block ep)
                (np_arange 1 (1 + int (length (num_trials_per_block ep))))))"
    "trial_num_within_block ep =
           concat (map (\<lambda>nt. np_arange 1 (1 + nt)) (num_trials_per_block ep))"
    "total_num_trials ep = sum_list (num_trials_per_block ep)"
    "stimuli ep = concat (map (\<lambda>i. sampled_stimuli (stimulus_creator self i
           (num_trials_per_block ep ! i)
           (side_bias_probs self (preferred_side_of_block (choice g) i))))
           [0..<length (num_trials_per_block ep)])"
    "stimuli_sides ep = concat (map (\<lambda>i. sampled_sides (stimulus_creator self i
           (num_trials_per_block ep ! i)
           (side_bias_probs self (preferred_side_of_block (choice g) i))))
           [0..<length (num_trials_per_block ep)])"
    "stimuli_strengths ep = concat (map (\<lambda>i. sampled_strengths (stimulus_creator self i
           (num_trials_per_block ep ! i)
           (side_bias_probs self (preferred_side_of_block (choice g) i))))
           [0..<length (num_trials_per_block ep)])"
    "stimuli_preferred_sides ep = concat (map (\<lambda>i. np_full (num_trials_per_block ep ! i)
           (if preferred_side_of_block (choice g) i = Left then - 1 else 1))
           [0..<length (num_trials_per_block ep)])"
    "rewards ep = replicate (nat (total_num_trials ep)) 0"
    "actions ep = replicate (nat (total_num_trials ep)) (0, 0)"
    by blast
  have st: "state self' = Some ep"
    by (simp add: ep(1))
  have nonneg: "\<forall>n \<in> set (num_trials_per_block ep). 0 \<le> n"
    unfolding ep(2) using truncate_blocks_bounds by force
  have tot: "0 \<le> total_num_trials ep"
    using reset_total_ge_20 [OF assms(1) st] by simp
  have sum: "(\<Sum>n\<leftarrow>num_trials_per_block ep. nat n) = nat (total_num_trials ep)"
    unfolding ep(5) by (rule sum_list_nat_nonneg [OF nonneg])
  have l1: "length (stimuli ep) = nat (total_num_trials ep)"
    unfolding ep(5) by (subst ep(6), rule length_concat_blocks) (use assms(2) nonneg in auto)
  have l2: "length (stimuli_sides ep) = nat (total_num_trials ep)"
    unfolding ep(5) by (subst ep(7), rule length_concat_blocks) (use assms(2) nonneg in auto)
  have l3: "length (stimuli_strengths ep) = nat (total_num_trials ep)"
    unfolding ep(5) by (subst ep(8), rule length_concat_blocks) (use assms(2) nonneg in auto)
  have l4: "length (stimuli_preferred_sides ep) = nat (total_num_trials ep)"
    unfolding ep(5)
    by (subst ep(9), rule length_concat_blocks) (use nonneg in \<open>auto simp: np_full_def\<close>)
  have l5: "length (stimuli_block_number ep) = nat (total_num_trials ep)"
    by (subst ep(3), subst length_concat_np_full_zip) (simp_all add: length_np_arange sum)
  have l6: "length (trial_num_within_block ep) = nat (total_num_trials ep)"
    by (subst ep(4)) (simp add: length_concat_np_arange sum)
  have l7: "length (rewards ep) = nat (total_num_trials ep)"
    "length (actions ep) = nat (total_num_trials ep)"
    by (simp_all add: ep(10,11))
  show ?thesis
    by (rule exI [of _ ep]) (use st tot l1 l2 l3 l4 l5 l6 l7 ep(5) in simp)
qed

lemma example_creator_lengths:
  "\<forall>k n p. length (sampled_stimuli (stimulus_creator example_task k n p)) = nat n
           \<and> length (sampled_sides (stimulus_creator example_task k n p)) = nat n
           \<and> length (sampled_strengths (stimulus_creator example_task k n p)) = nat n"
  by (simp add: example_task_def init_def example_creator_def)

lemma example_reset_returns:
  "\<exists>self' out. reset example_rng example_task = Inr (self', out)"
  by (rule reset_returns) (simp_all add: example_task_def init_def example_creator_def)

lemma example_num_trials_per_block:
  "truncate_blocks (map (geometric example_rng) [0..<nat (num_blocks example_task)])
     = [20, 100, 57]"
proof -
  have "[0..<nat (num_blocks example_task)] = [0, 1, 2]"
    by (simp add: example_task_def init_def upt_rec)
  then show ?thesis
    by (simp add: truncate_blocks_map example_rng_def)
qed

theorem reset_array_lengths_witness:
  "\<exists>self' out ep. reset example_rng example_task = Inr (self', out)
     \<and> state self' = Some ep
     \<and> total_num_trials ep = 177
     \<and> length (stimuli ep) = 177 \<and> length (stimuli_sides ep) = 177
     \<and> length (stimuli_strengths ep) = 177 \<and> length (stimuli_preferred_sides ep) = 177
     \<and> length (stimuli_block_number ep) = 177 \<and> length (trial_num_within_block ep) = 177
     \<and> length (rewards ep) = 177 \<and> length (actions ep) = 177"
proof -
  from example_reset_returns obtain self' out
    where r: "reset example_rng example_task = Inr (self', out)"
    by blast
  from reset_array_lengths [OF r example_creator_lengths] obtain ep where
    ep: "state self' = Some ep"
      "sum_list (num_trials_per_block ep) = total_num_trials ep"
      "int (length (stimuli ep)) = total_num_trials ep"
      "int (length (stimuli_sides ep)) = total_num_trials ep"
      "int (length (stimuli_strengths ep)) = total_num_trials ep"
      "int (length (stimuli_preferred_sides ep)) = total_num_trials ep"
      "int (length (stimuli_block_number ep)) = total_num_trials ep"
      "int (length (trial_num_within_block ep)) = total_num_trials ep"
      "int (length (rewards ep)) = total_num_trials ep"
      "int (length (actions ep)) = total_num_trials ep"
    by blast
  from reset_Inr_D [OF r] ep(1) have
    "num_trials_per_block ep =
       truncate_blocks (map (geometric example_rng) [0..<nat (num_blocks example_task)])"
    by auto
  then have "total_num_trials ep = 177"
    using ep(2) by (simp add: example_num_trials_per_block)
  with r ep show ?thesis by auto
qed

subsection \<open>The first observation\<close>

text \<open>
  Claim C9. The first observation returned by reset has \<open>done\<close> true exactly when
  \<open>total_num_trials\<close> is 0. A reset that returns has built at least 20 trials (a task
  without blocks raises \<open>ValueError\<close> instead), so \<open>done\<close> is false, the stimulus is
  the stimulus of trial 0, the reward is the placeholder 0 with no info payload, and
  the cursor is at 0.
\<close>

lemma reset_no_blocks:
  "num_blocks self \<le> 0 \<Longrightarrow> reset g self = Inl ValueError"
  by (simp add: reset_def np_concatenate_def truncate_blocks_def)

theorem reset_first_observation:
  assumes "reset g self = Inr (self', out)"
  shows "\<exists>ep. state self' = Some ep
     \<and> current_trial_idx ep = 0
     \<and> 20 \<le> total_num_trials ep
     \<and> (done_flag out \<longleftrightarrow> total_num_trials ep = 0)
     \<and> \<not> done_flag out
     \<and> stimuli ep \<noteq> [] \<and> stimulus out = stimuli ep ! 0
     \<and> reward out = 0 \<and> info out = None"
proof -
  from reset_Inr_D [OF assms] obtain ep where
    ep: "self' = self\<lparr>state := Some ep\<rparr>" "current_trial_idx ep = 0" "stimuli ep \<noteq> []"
      "out = \<lparr> stimulus = stimuli ep ! 0, reward = 0, info = None,
               done_flag = (0 = total_num_trials ep) \<rparr>"
    by blast
  have st: "state self' = Some ep"
    by (simp add: ep(1))
  have tot: "20 \<le> total_num_trials ep"
    by (rule reset_total_ge_20 [OF assms st])
  show ?thesis
    by (rule exI [of _ ep]) (use st tot ep(2,3,4) in auto)
qed

theorem reset_first_observation_witness:
  "\<exists>self' out ep. reset example_rng example_task = Inr (self', out)
     \<and> state self' = Some ep \<and> current_trial_idx ep = 0
     \<and> total_num_trials ep = 177 \<and> length (stimuli ep) = 177
     \<and> \<not> done_flag out \<and> stimuli ep \<noteq> []
     \<and> stimulus out = stimuli ep ! 0 \<and> stimulus out = 0
     \<and> reward out = 0 \<and> info out = None"
proof -
  from example_reset_returns obtain self' out
    where r: "reset example_rng example_task = Inr (self', out)"
    by blast
  from reset_first_observation [OF r] obtain ep where
    ep: "state self' = Some ep" "current_trial_idx ep = 0"
      "\<not> done_flag out" "stimuli ep \<noteq> []" "stimulus out = stimuli ep ! 0"
      "reward out = 0" "info out = None"
    by blast
  from reset_Inr_D [OF r] ep(1) have
    npb0: "num_trials_per_block ep =
       truncate_blocks (map (geometric example_rng) [0..<nat (num_blocks example_task)])"
    and tot0: "total_num_trials ep = sum_list (num_trials_per_block ep)"
    and st0: "stimuli ep = concat (map (\<lambda>i. sampled_stimuli (stimulus_creator example_task i
           (num_trials_per_block ep ! i)
           (side_bias_probs example_task (preferred_side_of_block (choice example_rng) i))))
           [0..<length (num_trials_per_block ep)])"
    by auto
  have npb: "num_trials_per_block ep = [20, 100, 57]"
    using npb0 by (simp add: example_num_trials_per_block)
  have tot: "total_num_trials ep = 177"
    using tot0 by (simp add: npb)
  have idx: "[0..<length (num_trials_per_block ep)] = [0, 1, 2]"
    by (simp add: npb upt_rec)
  have len: "length (stimuli ep) = 177"
    unfolding st0 idx by (simp add: npb example_task_def init_def example_creator_def)
  have "stimuli ep ! 0 = 0"
    unfolding st0 idx
    by (simp add: npb example_task_def init_def example_creator_def nth_append)
  with r ep tot len show ?thesis by auto
qed

subsection \<open>Block numbers and positions within a block\<close>

lemma zip_np_arange:
  "zip ns (np_arange 1 (1 + int (length ns))) = map (\<lambda>i. (ns ! i, int i + 1)) [0..<length ns]"
  by (rule nth_equalityI) (simp_all add: np_arange_def)

lemma block_number_eq:
  "concat (map (\<lambda>(nt, i). np_full nt i) (zip ns (np_arange 1 (1 + int (length ns)))))
     = concat (map (\<lambda>i. replicate (nat (ns ! i)) (int i + 1)) [0..<length ns])"
  by (simp add: zip_np_arange np_full_def comp_def)

lemma set_concat_blocks:
  "set (concat (map (\<lambda>i. replicate (n i) (int i + 1)) [0..<m]))
     = (\<lambda>i. int i + 1) ` {i. i < m \<and> 0 < n i}"
  by auto

lemma sorted_concat_blocks:
  "sorted (concat (map (\<lambda>i. replicate (n i) (int i + 1)) [0..<m]))"
proof (induction m)
  case 0
  then show ?case by simp
next
  case (Suc m)
  have "\<forall>x \<in> set (concat (map (\<lambda>i. replicate (n i) (int i + 1)) [0..<m])). x \<le> int m + 1"
    unfolding set_concat_blocks by auto
  with Suc show ?case
    by (simp add: sorted_append)
qed

lemma count_list_replicate_eq:
  "count_list (replicate k x) y = (if x = y then k else 0)"
  by (induction k) auto

lemma count_list_concat_blocks:
  "j < m \<Longrightarrow> count_list (concat (map (\<lambda>i. replicate (n i) (int i + 1)) [0..<m])) (int j + 1) = n j"
proof (induction m)
  case 0
  then show ?case by simp
next
  case (Suc m)
  show ?case
  proof (cases "j = m")
    case True
    have "int m + 1 \<notin> set (concat (map (\<lambda>i. replicate (n i) (int i + 1)) [0..<m]))"
      unfolding set_concat_blocks by auto
    then have "count_list (concat (map (\<lambda>i. replicate (n i) (int i + 1)) [0..<m])) (int m + 1) = 0"
      by (simp add: count_list_0_iff)
    with True show ?thesis
      by (simp add: count_list_replicate_eq)
  next
    case False
    with Suc show ?thesis
      by (simp add: count_list_replicate_eq)
  qed
qed

text \<open>
  Claim C7. After a reset that returns, \<open>stimuli_block_number\<close> is the concatenation, in
  block order, of the block's 1-based index repeated as many times as the block has
  trials. Hence it is non-decreasing, its values are exactly 1, ..., \<open>num_blocks\<close>
  (\<open>num_blocks\<close> distinct values), and the index of block \<open>i\<close> occurs exactly
  \<open>num_trials_per_block[i]\<close> times. \<open>trial_num_within_block\<close> is the concatenation, in
  block order, of the sequences 1, ..., (the block's number of trials).
\<close>

theorem reset_block_numbers:
  assumes "reset g self = Inr (self', out)"
  shows "\<exists>ep. state self' = Some ep
     \<and> int (length (num_trials_per_block ep)) = num_blocks self
     \<and> stimuli_block_number ep =
         concat (map (\<lambda>i. replicate (nat (num_trials_per_block ep ! i)) (int i + 1))
                   [0..<length (num_trials_per_block ep)])
     \<and> sorted (stimuli_block_number ep)
     \<and> set (stimuli_block_number ep) = {1..num_blocks self}
     \<and> card (set (stimuli_block_number ep)) = nat (num_blocks self)
     \<and> (\<forall>i < length (num_trials_per_block ep).
           int (count_list (stimuli_block_number ep) (int i + 1)) = num_trials_per_block ep ! i)
     \<and> trial_num_within_block ep = concat (map (\<lambda>nt. [1..nt]) (num_trials_per_block ep))"
proof -
  from reset_Inr_D [OF assms] obtain ep where ep:
    "self' = self\<lparr>state := Some ep\<rparr>"
    "0 < num_blocks self"
    "num_trials_per_block ep = truncate_blocks (map (geometric g) [0..<nat (num_blocks self)])"
    "stimuli_block_number ep = concat (map (\<lambda>(nt, i). np_full nt i)
           (zip (num_trials_per_block ep)
                (np_arange 1 (1 + int (length (num_trials_per_block ep))))))"
    "trial_num_within_block ep =
           concat (map (\<lambda>nt. np_arange 1 (1 + nt)) (num_trials_per_block ep))"
    by blast
  let ?npb = "num_trials_per_block ep"
  let ?n = "\<lambda>i. nat (?npb ! i)"
  have len: "int (length ?npb) = num_blocks self"
    using ep(2) by (simp add: ep(3) truncate_blocks_map)
  have pos: "0 < ?n i" "int (?n i) = ?npb ! i" if "i < length ?npb" for i
  proof -
    have "?npb ! i \<in> set ?npb" using that by simp
    then have "20 \<le> ?npb ! i"
      unfolding ep(3) using truncate_blocks_bounds by blast
    then show "0 < ?n i" "int (?n i) = ?npb ! i" by simp_all
  qed
  have sbn: "stimuli_block_number ep =
      concat (map (\<lambda>i. replicate (?n i) (int i + 1)) [0..<length ?npb])"
    unfolding ep(4) by (rule block_number_eq)
  have srt: "sorted (stimuli_block_number ep)"
    unfolding sbn by (rule sorted_concat_blocks)
  have "{i. i < length ?npb \<and> 0 < ?n i} = {i. i < length ?npb}"
    using pos(1) by blast
  then have "set (stimuli_block_number ep) = (\<lambda>i. int i + 1) ` {i. i < length ?npb}"
    unfolding sbn set_concat_blocks by simp
  also have "\<dots> = {1..int (length ?npb)}"
  proof (rule set_eqI)
    fix x
    show "x \<in> (\<lambda>i. int i + 1) ` {i. i < length ?npb} \<longleftrightarrow> x \<in> {1..int (length ?npb)}"
    proof
      assume "x \<in> (\<lambda>i. int i + 1) ` {i. i < length ?npb}"
      then show "x \<in> {1..int (length ?npb)}" by auto
    next
      assume x: "x \<in> {1..int (length ?npb)}"
      then have "x = int (nat (x - 1)) + 1" "nat (x - 1) < length ?npb" by auto
      then show "x \<in> (\<lambda>i. int i + 1) ` {i. i < length ?npb}" by blast
    qed
  qed
  finally have st: "set (stimuli_block_number ep) = {1..num_blocks self}"
    by (simp add: len)
  have crd: "card (set (stimuli_block_number ep)) = nat (num_blocks self)"
    unfolding st by simp
  have cnt: "int (count_list (stimuli_block_number ep) (int i + 1)) = ?npb ! i"
    if "i < length ?npb" for i
    unfolding sbn using count_list_concat_blocks [OF that, of ?n] pos(2) [OF that] by simp
  have tnw: "trial_num_within_block ep = concat (map (\<lambda>nt. [1..nt]) ?npb)"
    unfolding ep(5) by (simp add: np_arange_def)
  show ?thesis
    by (rule exI [of _ ep]) (use ep(1) len sbn srt st crd cnt tnw in simp)
qed

theorem reset_block_numbers_witness:
  "\<exists>self' out ep. reset example_rng example_task = Inr (self', out)
     \<and> state self' = Some ep
     \<and> sorted (stimuli_block_number ep)
     \<and> set (stimuli_block_number ep) = {1..3}
     \<and> card (set (stimuli_block_number ep)) = 3
     \<and> count_list (stimuli_block_number ep) 1 = 20
     \<and> count_list (stimuli_block_number ep) 2 = 100
     \<and> count_list (stimuli_block_number ep) 3 = 57
     \<and> trial_num_within_block ep = [1..20] @ [1..100] @ [1..57]"
proof -
  from example_reset_returns obtain self' out
    where r: "reset example_rng example_task = Inr (self', out)"
    by blast
  have nb: "num_blocks example_task = 3"
    by (simp add: example_task_def init_def)
  from reset_block_numbers [OF r] obtain ep where
    ep: "state self' = Some ep"
      "sorted (stimuli_block_number ep)"
      "set (stimuli_block_number ep) = {1..3}"
      "card (set (stimuli_block_number ep)) = 3"
      "trial_num_within_block ep = concat (map (\<lambda>nt. [1..nt]) (num_trials_per_block ep))"
    and cnt: "\<And>i. i < length (num_trials_per_block ep) \<Longrightarrow>
           int (count_list (stimuli_block_number ep) (int i + 1)) = num_trials_per_block ep ! i"
    unfolding nb by auto
  from reset_Inr_D [OF r] ep(1) have
    "num_trials_per_block ep =
       truncate_blocks (map (geometric example_rng) [0..<nat (num_blocks example_task)])"
    by auto
  then have npb: "num_trials_per_block ep = [20, 100, 57]"
    by (simp add: example_num_trials_per_block)
  from cnt [of 0] cnt [of 1] cnt [of 2] have
    "count_list (stimuli_block_number ep) 1 = 20"
    "count_list (stimuli_block_number ep) 2 = 100"
    "count_list (stimuli_block_number ep) 3 = 57"
    by (simp_all add: npb)
  with r ep show ?thesis
    by (auto simp: npb)
qed

subsection \<open>Preferred sides\<close>

lemma concat_blocks_map_block_number:
  "concat (map (\<lambda>i. replicate (n i) (sg i)) [0..<m])
     = map (\<lambda>b. map sg [0..<m] ! nat (b - 1))
         (concat (map (\<lambda>i. replicate (n i) (int i + 1)) [0..<m]))"
proof -
  have h: "map (\<lambda>i. replicate (n i) (sg i)) [0..<m]
      = map (\<lambda>i. replicate (n i) (map sg [0..<m] ! i)) [0..<m]"
    by (rule map_cong) simp_all
  show ?thesis
    by (simp add: map_concat comp_def flip: h)
qed

lemma preferred_sign_alternates:
  "(if preferred_side_of_block c (Suc i) = Left then - 1 else (1::real))
     = - (if preferred_side_of_block c i = Left then - 1 else 1)"
  by (cases c) (simp_all add: preferred_side_of_block_def)

text \<open>
  Claim C4. After a reset that returns there is one sign per block, - 1 (left) or + 1
  (right): \<open>stimuli_preferred_sides\<close> repeats the sign of each block once per trial of the
  block, in block order, so that every trial carries the sign of the block it belongs
  to. The sign of the first block is the one drawn at random; the sign of every later
  block is the negation of the sign of the block before it.
\<close>

theorem reset_preferred_sides_alternate:
  assumes "reset g self = Inr (self', out)"
  shows "\<exists>ep signs. state self' = Some ep
     \<and> length signs = length (num_trials_per_block ep)
     \<and> int (length signs) = num_blocks self
     \<and> stimuli_preferred_sides ep =
         concat (map (\<lambda>i. replicate (nat (num_trials_per_block ep ! i)) (signs ! i))
                   [0..<length (num_trials_per_block ep)])
     \<and> stimuli_preferred_sides ep = map (\<lambda>b. signs ! nat (b - 1)) (stimuli_block_number ep)
     \<and> signs ! 0 = (if choice g = Left then - 1 else 1)
     \<and> (\<forall>i. i + 1 < length signs \<longrightarrow> signs ! (i + 1) = - signs ! i)
     \<and> (\<forall>s \<in> set signs. s = - 1 \<or> s = 1)"
proof -
  from reset_Inr_D [OF assms] obtain ep where ep:
    "self' = self\<lparr>state := Some ep\<rparr>"
    "0 < num_blocks self"
    "num_trials_per_block ep = truncate_blocks (map (geometric g) [0..<nat (num_blocks self)])"
    "stimuli_block_number ep = concat (map (\<lambda>(nt, i). np_full nt i)
           (zip (num_trials_per_block ep)
                (np_arange 1 (1 + int (length (num_trials_per_block ep))))))"
    "stimuli_preferred_sides ep = concat (map (\<lambda>i. np_full (num_trials_per_block ep ! i)
           (if preferred_side_of_block (choice g) i = Left then - 1 else 1))
           [0..<length (num_trials_per_block ep)])"
    by blast
  let ?npb = "num_trials_per_block ep"
  let ?sg = "\<lambda>i. if preferred_side_of_block (choice g) i = Left then - 1 else (1::real)"
  define signs where "signs = map ?sg [0..<length ?npb]"
  have l: "length signs = length ?npb"
    by (simp add: signs_def)
  have nb: "int (length signs) = num_blocks self"
    using ep(2) by (simp add: l ep(3) truncate_blocks_map)
  have sbn: "stimuli_block_number ep =
      concat (map (\<lambda>i. replicate (nat (?npb ! i)) (int i + 1)) [0..<length ?npb])"
    unfolding ep(4) by (rule block_number_eq)
  have pref: "stimuli_preferred_sides ep =
      concat (map (\<lambda>i. replicate (nat (?npb ! i)) (?sg i)) [0..<length ?npb])"
    unfolding ep(5) by (simp add: np_full_def)
  have "map (\<lambda>i. replicate (nat (?npb ! i)) (?sg i)) [0..<length ?npb]
      = map (\<lambda>i. replicate (nat (?npb ! i)) (signs ! i)) [0..<length ?npb]"
    by (rule map_cong) (simp_all add: signs_def)
  with pref have p1: "stimuli_preferred_sides ep =
      concat (map (\<lambda>i. replicate (nat (?npb ! i)) (signs ! i)) [0..<length ?npb])"
    by simp
  have p2: "stimuli_preferred_sides ep = map (\<lambda>b. signs ! nat (b - 1)) (stimuli_block_number ep)"
    unfolding pref sbn signs_def by (rule concat_blocks_map_block_number)
  have "0 < length ?npb"
    using ep(2) by (simp add: ep(3) truncate_blocks_map)
  then have s0: "signs ! 0 = (if choice g = Left then - 1 else 1)"
    by (simp add: signs_def preferred_side_of_block_0)
  have alt: "signs ! (i + 1) = - signs ! i" if "i + 1 < length signs" for i
    using that preferred_sign_alternates [of "choice g" i] by (simp add: signs_def)
  have rng: "\<forall>s \<in> set signs. s = - 1 \<or> s = 1"
    by (auto simp: signs_def)
  show ?thesis
    by (rule exI [of _ ep], rule exI [of _ signs])
      (use ep(1) l nb p1 p2 s0 alt rng in simp)
qed

theorem reset_preferred_sides_alternate_witness:
  "\<exists>self' out ep signs. reset example_rng example_task = Inr (self', out)
     \<and> state self' = Some ep
     \<and> length signs = 3 \<and> signs ! 0 = - 1 \<and> signs ! 1 = 1 \<and> signs ! 2 = - 1
     \<and> stimuli_preferred_sides ep
         = replicate 20 (signs ! 0) @ replicate 100 (signs ! 1) @ replicate 57 (signs ! 2)"
proof -
  from example_reset_returns obtain self' out
    where r: "reset example_rng example_task = Inr (self', out)"
    by blast
  have nb: "num_blocks example_task = 3"
    by (simp add: example_task_def init_def)
  from reset_preferred_sides_alternate [OF r] obtain ep signs where
    ep: "state self' = Some ep"
      "length signs = length (num_trials_per_block ep)"
      "int (length signs) = 3"
      "stimuli_preferred_sides ep =
         concat (map (\<lambda>i. replicate (nat (num_trials_per_block ep ! i)) (signs ! i))
                   [0..<length (num_trials_per_block ep)])"
      "signs ! 0 = (if choice example_rng = Left then - 1 else 1)"
    and alt: "\<And>i. i + 1 < length signs \<Longrightarrow> signs ! (i + 1) = - signs ! i"
    unfolding nb by blast
  have l: "length signs = 3"
    using ep(3) by simp
  from reset_Inr_D [OF r] ep(1) have
    "num_trials_per_block ep =
       truncate_blocks (map (geometric example_rng) [0..<nat (num_blocks example_task)])"
    by auto
  then have npb: "num_trials_per_block ep = [20, 100, 57]"
    by (simp add: example_num_trials_per_block)
  have s0: "signs ! 0 = - 1"
    using ep(5) by (simp add: example_rng_def)
  have s1: "signs ! 1 = 1"
    using alt [of 0] s0 l by simp
  have s2: "signs ! 2 = - 1"
    using alt [of 1] s1 l by (simp add: numeral_2_eq_2)
  have "[0..<length (num_trials_per_block ep)] = [0, 1, 2]"
    by (simp add: npb upt_rec)
  with ep(4) have "stimuli_preferred_sides ep
      = replicate 20 (signs ! 0) @ replicate 100 (signs ! 1) @ replicate 57 (signs ! 2)"
    by (simp add: npb numeral_2_eq_2)
  with r ep(1) l s0 s1 s2 show ?thesis by blast
qed

section \<open>Properties of step\<close>

subsection \<open>One call\<close>

text \<open>
  The three ways a call of \<open>step\<close> ends on an episode whose five per-trial arrays have
  length \<open>n\<close> and whose sides are - 1 or + 1: with a next trial it returns; on the last
  trial it records the decision, moves the cursor and then raises at the read of line
  186; beyond the last trial it raises at the read of line 171 and changes nothing.
\<close>

lemma step_next_trial:
  assumes "state self = Some ep"
    and "length (stimuli ep) = n" and "length (stimuli_sides ep) = n"
    and "length (stimuli_strengths ep) = n"
    and "length (rewards ep) = n" and "length (actions ep) = n"
    and "stimuli_sides ep ! current_trial_idx ep = - 1
         \<or> stimuli_sides ep ! current_trial_idx ep = 1"
    and "current_trial_idx ep + 1 < n"
  shows "step self a h =
     (self\<lparr>state := Some (ep\<lparr>
          rewards := (rewards ep)[current_trial_idx ep :=
             (if stimuli_sides ep ! current_trial_idx ep = - 1 then fst a else snd a)],
          actions := (actions ep)[current_trial_idx ep := a],
          model_hidden_states := model_hidden_states ep @ [h],
          current_trial_idx := current_trial_idx ep + 1\<rparr>)\<rparr>,
      Inr \<lparr> stimulus = stimuli ep ! (current_trial_idx ep + 1),
            reward = (if stimuli_sides ep ! current_trial_idx ep = - 1 then fst a else snd a),
            info = Some \<lparr> stimulus_side = stimuli_sides ep ! (current_trial_idx ep + 1),
                          stimulus_strength = stimuli_strengths ep ! (current_trial_idx ep + 1) \<rparr>,
            done_flag = (int (current_trial_idx ep + 1) + 1 = total_num_trials ep) \<rparr>)"
  using assms
  unfolding step_def tensor_get_def tensor_set_def NLLLoss_def Let_def
  by auto

lemma step_last_trial:
  assumes "state self = Some ep"
    and "length (stimuli ep) = n" and "length (stimuli_sides ep) = n"
    and "length (stimuli_strengths ep) = n"
    and "length (rewards ep) = n" and "length (actions ep) = n"
    and "stimuli_sides ep ! current_trial_idx ep = - 1
         \<or> stimuli_sides ep ! current_trial_idx ep = 1"
    and "current_trial_idx ep + 1 = n"
  shows "step self a h =
     (self\<lparr>state := Some (ep\<lparr>
          rewards := (rewards ep)[current_trial_idx ep :=
             (if stimuli_sides ep ! current_trial_idx ep = - 1 then fst a else snd a)],
          actions := (actions ep)[current_trial_idx ep := a],
          model_hidden_states := model_hidden_states ep @ [h],
          current_trial_idx := current_trial_idx ep + 1\<rparr>)\<rparr>,
      Inl IndexError)"
  using assms
  unfolding step_def tensor_get_def tensor_set_def NLLLoss_def Let_def
  by auto

lemma step_beyond:
  assumes "state self = Some ep"
    and "length (stimuli_sides ep) = n"
    and "n \<le> current_trial_idx ep"
  shows "step self a h = (self, Inl IndexError)"
  using assms
  unfolding step_def tensor_get_def
  by simp

subsection \<open>Sequences of calls\<close>

text \<open>
  \<open>k\<close> calls from a cursor \<open>i\<close> with \<open>i + k < n\<close> all return. The lemma describes the
  outputs and the episode they leave.
\<close>

lemma step_calls_returns:
  assumes "state self = Some ep"
    and "length (stimuli ep) = n" and "length (stimuli_sides ep) = n"
    and "length (stimuli_strengths ep) = n"
    and "length (rewards ep) = n" and "length (actions ep) = n"
    and "\<forall>j<n. stimuli_sides ep ! j = - 1 \<or> stimuli_sides ep ! j = 1"
    and "current_trial_idx ep + length ds < n"
  shows "\<exists>ep' outs. step_calls self ds = (self\<lparr>state := Some ep'\<rparr>, Inr outs)
     \<and> length outs = length ds
     \<and> current_trial_idx ep' = current_trial_idx ep + length ds
     \<and> model_hidden_states ep' = model_hidden_states ep @ map snd ds
     \<and> length (rewards ep') = n \<and> length (actions ep') = n
     \<and> (\<forall>j<length ds.
           rewards ep' ! (current_trial_idx ep + j) = reward (outs ! j)
         \<and> reward (outs ! j) =
             (if stimuli_sides ep ! (current_trial_idx ep + j) = - 1
              then fst (fst (ds ! j)) else snd (fst (ds ! j)))
         \<and> actions ep' ! (current_trial_idx ep + j) = fst (ds ! j)
         \<and> stimulus (outs ! j) = stimuli ep ! (current_trial_idx ep + j + 1)
         \<and> done_flag (outs ! j)
             = (int (current_trial_idx ep + j + 1) + 1 = total_num_trials ep))
     \<and> (\<forall>t. t < current_trial_idx ep \<or> current_trial_idx ep + length ds \<le> t \<longrightarrow>
           rewards ep' ! t = rewards ep ! t \<and> actions ep' ! t = actions ep ! t)
     \<and> stimuli ep' = stimuli ep \<and> stimuli_sides ep' = stimuli_sides ep
     \<and> stimuli_strengths ep' = stimuli_strengths ep
     \<and> stimuli_preferred_sides ep' = stimuli_preferred_sides ep
     \<and> stimuli_block_number ep' = stimuli_block_number ep
     \<and> trial_num_within_block ep' = trial_num_within_block ep
     \<and> num_trials_per_block ep' = num_trials_per_block ep
     \<and> total_num_trials ep' = total_num_trials ep"
  using assms
proof (induction ds arbitrary: self ep)
  case Nil
  have "self\<lparr>state := Some ep\<rparr> = self"
    using Nil.prems(1) by simp
  then have "step_calls self [] = (self\<lparr>state := Some ep\<rparr>, Inr [])"
    by simp
  then show ?case
    using Nil.prems by (intro exI [of _ ep] exI [of _ "[]"]) simp
next
  case (Cons d ds)
  let ?i = "current_trial_idx ep"
  let ?r = "if stimuli_sides ep ! ?i = - 1 then fst (fst d) else snd (fst d)"
  define ep1 where "ep1 = ep\<lparr>
          rewards := (rewards ep)[?i := ?r],
          actions := (actions ep)[?i := fst d],
          model_hidden_states := model_hidden_states ep @ [snd d],
          current_trial_idx := ?i + 1\<rparr>"
  define out1 where "out1 =
     \<lparr> stimulus = stimuli ep ! (?i + 1), reward = ?r,
       info = Some \<lparr> stimulus_side = stimuli_sides ep ! (?i + 1),
                     stimulus_strength = stimuli_strengths ep ! (?i + 1) \<rparr>,
       done_flag = (int (?i + 1) + 1 = total_num_trials ep) \<rparr>"
  define self1 where "self1 = self\<lparr>state := Some ep1\<rparr>"
  have i: "?i + 1 < n" "?i < n"
    using Cons.prems(8) by simp_all
  have side: "stimuli_sides ep ! ?i = - 1 \<or> stimuli_sides ep ! ?i = 1"
    using Cons.prems(7) i(2) by blast
  have s1: "step self (fst d) (snd d) = (self1, Inr out1)"
    unfolding self1_def ep1_def out1_def
    by (rule step_next_trial [OF Cons.prems(1-6) side i(1)])
  have st1: "state self1 = Some ep1"
    by (simp add: self1_def)
  have ih_prems: "length (stimuli ep1) = n" "length (stimuli_sides ep1) = n"
    "length (stimuli_strengths ep1) = n" "length (rewards ep1) = n" "length (actions ep1) = n"
    "\<forall>j<n. stimuli_sides ep1 ! j = - 1 \<or> stimuli_sides ep1 ! j = 1"
    "current_trial_idx ep1 + length ds < n"
    using Cons.prems by (simp_all add: ep1_def)
  from Cons.IH [OF st1 ih_prems] obtain ep' outs where
    calls: "step_calls self1 ds = (self1\<lparr>state := Some ep'\<rparr>, Inr outs)"
    and len: "length outs = length ds"
    and idx: "current_trial_idx ep' = current_trial_idx ep1 + length ds"
    and mhs: "model_hidden_states ep' = model_hidden_states ep1 @ map snd ds"
    and lens: "length (rewards ep') = n" "length (actions ep') = n"
    and each: "\<And>j. j < length ds \<Longrightarrow>
           rewards ep' ! (current_trial_idx ep1 + j) = reward (outs ! j)
         \<and> reward (outs ! j) =
             (if stimuli_sides ep1 ! (current_trial_idx ep1 + j) = - 1
              then fst (fst (ds ! j)) else snd (fst (ds ! j)))
         \<and> actions ep' ! (current_trial_idx ep1 + j) = fst (ds ! j)
         \<and> stimulus (outs ! j) = stimuli ep1 ! (current_trial_idx ep1 + j + 1)
         \<and> done_flag (outs ! j)
             = (int (current_trial_idx ep1 + j + 1) + 1 = total_num_trials ep1)"
    and frame: "\<And>t. t < current_trial_idx ep1 \<or> current_trial_idx ep1 + length ds \<le> t \<Longrightarrow>
           rewards ep' ! t = rewards ep1 ! t \<and> actions ep' ! t = actions ep1 ! t"
    and same: "stimuli ep' = stimuli ep1" "stimuli_sides ep' = stimuli_sides ep1"
      "stimuli_strengths ep' = stimuli_strengths ep1"
      "stimuli_preferred_sides ep' = stimuli_preferred_sides ep1"
      "stimuli_block_number ep' = stimuli_block_number ep1"
      "trial_num_within_block ep' = trial_num_within_block ep1"
      "num_trials_per_block ep' = num_trials_per_block ep1"
      "total_num_trials ep' = total_num_trials ep1"
    by blast
  have c: "step_calls self (d # ds) = (self\<lparr>state := Some ep'\<rparr>, Inr (out1 # outs))"
    using s1 calls by (simp add: self1_def)
  have at_i: "rewards ep' ! ?i = ?r" "actions ep' ! ?i = fst d"
    using frame [of ?i] i(2) Cons.prems(5,6) by (simp_all add: ep1_def)
  have each': "rewards ep' ! (?i + j) = reward ((out1 # outs) ! j)
         \<and> reward ((out1 # outs) ! j) =
             (if stimuli_sides ep ! (?i + j) = - 1
              then fst (fst ((d # ds) ! j)) else snd (fst ((d # ds) ! j)))
         \<and> actions ep' ! (?i + j) = fst ((d # ds) ! j)
         \<and> stimulus ((out1 # outs) ! j) = stimuli ep ! (?i + j + 1)
         \<and> done_flag ((out1 # outs) ! j) = (int (?i + j + 1) + 1 = total_num_trials ep)"
    if "j < length (d # ds)" for j
  proof (cases j)
    case 0
    then show ?thesis
      using at_i by (simp add: out1_def)
  next
    case (Suc j')
    then have "j' < length ds" using that by simp
    from each [OF this] show ?thesis
      by (simp add: Suc ep1_def)
  qed
  have frame': "rewards ep' ! t = rewards ep ! t \<and> actions ep' ! t = actions ep ! t"
    if "t < ?i \<or> ?i + length (d # ds) \<le> t" for t
  proof -
    from that have "t < current_trial_idx ep1 \<or> current_trial_idx ep1 + length ds \<le> t"
      by (auto simp: ep1_def)
    from frame [OF this] that show ?thesis
      by (auto simp: ep1_def)
  qed
  show ?case
    apply (rule exI [of _ ep'], rule exI [of _ "out1 # outs"])
    using c len idx mhs lens each' frame' same
    by (simp add: ep1_def)
qed

subsection \<open>The episode left by reset\<close>

text \<open>
  What \<open>step\<close> relies on after a \<open>reset\<close> that returned: the arrays it indexes have
  \<open>total_num_trials\<close> entries, and the correct sides are -1 or 1 when the stimulus
  creator returns such sides.
\<close>

lemma reset_ready:
  assumes "reset g self = Inr (self', out)"
    and "\<forall>k n p. length (sampled_stimuli (stimulus_creator self k n p)) = nat n
                \<and> length (sampled_sides (stimulus_creator self k n p)) = nat n
                \<and> length (sampled_strengths (stimulus_creator self k n p)) = nat n"
    and "\<forall>k n p. \<forall>x \<in> set (sampled_sides (stimulus_creator self k n p)). x = - 1 \<or> x = 1"
  shows "\<exists>ep. self' = self\<lparr>state := Some ep\<rparr>
     \<and> 20 \<le> total_num_trials ep
     \<and> length (stimuli ep) = nat (total_num_trials ep)
     \<and> length (stimuli_sides ep) = nat (total_num_trials ep)
     \<and> length (stimuli_strengths ep) = nat (total_num_trials ep)
     \<and> rewards ep = replicate (nat (total_num_trials ep)) 0
     \<and> actions ep = replicate (nat (total_num_trials ep)) (0, 0)
     \<and> model_hidden_states ep = [] \<and> current_trial_idx ep = 0
     \<and> (\<forall>j<nat (total_num_trials ep). stimuli_sides ep ! j = - 1 \<or> stimuli_sides ep ! j = 1)"
proof -
  from reset_Inr_D [OF assms(1)] obtain ep where ep:
    "self' = self\<lparr>state := Some ep\<rparr>"
    "num_trials_per_block ep = truncate_blocks (map (geometric g) [0..<nat (num_blocks self)])"
    "total_num_trials ep = sum_list (num_trials_per_block ep)"
    "stimuli ep = concat (map (\<lambda>i. sampled_stimuli (stimulus_creator self i
           (num_trials_per_block ep ! i)
           (side_bias_probs self (preferred_side_of_block (choice g) i))))
           [0..<length (num_trials_per_block ep)])"
    "stimuli_sides ep = concat (map (\<lambda>i. sampled_sides (stimulus_creator self i
           (num_trials_per_block ep ! i)
           (side_bias_probs self (preferred_side_of_block (choice g) i))))
           [0..<length (num_trials_per_block ep)])"
    "stimuli_strengths ep = concat (map (\<lambda>i. sampled_strengths (stimulus_creator self i
           (num_trials_per_block ep ! i)
           (side_bias_probs self (preferred_side_of_block (choice g) i))))
           [0..<length (num_trials_per_block ep)])"
    "rewards ep = replicate (nat (total_num_trials ep)) 0"
    "actions ep = replicate (nat (total_num_trials ep)) (0, 0)"
    "model_hidden_states ep = []" "current_trial_idx ep = 0"
    by blast
  have st: "state self' = Some ep"
    by (simp add: ep(1))
  have nonneg: "\<forall>n \<in> set (num_trials_per_block ep). 0 \<le> n"
    unfolding ep(2) using truncate_blocks_bounds by force
  have tot: "20 \<le> total_num_trials ep"
    by (rule reset_total_ge_20 [OF assms(1) st])
  have l1: "length (stimuli ep) = nat (total_num_trials ep)"
    unfolding ep(3) by (subst ep(4), rule length_concat_blocks) (use assms(2) nonneg in auto)
  have l2: "length (stimuli_sides ep) = nat (total_num_trials ep)"
    unfolding ep(3) by (subst ep(5), rule length_concat_blocks) (use assms(2) nonneg in auto)
  have l3: "length (stimuli_strengths ep) = nat (total_num_trials ep)"
    unfolding ep(3) by (subst ep(6), rule length_concat_blocks) (use assms(2) nonneg in auto)
  have "\<forall>x \<in> set (stimuli_sides ep). x = - 1 \<or> x = 1"
    by (subst ep(5)) (use assms(3) in auto)
  then have sides: "\<forall>j<nat (total_num_trials ep).
      stimuli_sides ep ! j = - 1 \<or> stimuli_sides ep ! j = 1"
    using l2 by (metis nth_mem)
  show ?thesis
    by (rule exI [of _ ep]) (use ep(1,7-10) tot l1 l2 l3 sides in blast)
qed

lemma example_creator_sides:
  "\<forall>k n p. \<forall>x \<in> set (sampled_sides (example_creator k n p)). x = - 1 \<or> x = 1"
  by (simp add: example_creator_def)

lemma map_plus_0: "map ((+) (0::nat)) xs = xs"
  by (rule map_idI) simp

text \<open>The 177-trial episode of \<open>example_task\<close> and the 20-trial episode of \<open>example_task_20\<close>.\<close>

lemma example_episode:
  "\<exists>ep out. reset example_rng example_task = Inr (example_task\<lparr>state := Some ep\<rparr>, out)
     \<and> total_num_trials ep = 177
     \<and> length (stimuli ep) = 177 \<and> length (stimuli_sides ep) = 177
     \<and> length (stimuli_strengths ep) = 177
     \<and> rewards ep = replicate 177 0 \<and> actions ep = replicate 177 (0, 0)
     \<and> model_hidden_states ep = [] \<and> current_trial_idx ep = 0
     \<and> (\<forall>j<177. stimuli_sides ep ! j = - 1 \<or> stimuli_sides ep ! j = 1)
     \<and> stimuli_sides ep = replicate 20 1 @ replicate 100 (- 1) @ replicate 57 1
     \<and> stimuli ep = [0..<20] @ map (\<lambda>i. 1000 + i) [0..<100] @ map (\<lambda>i. 2000 + i) [0..<57]"
proof -
  from example_reset_returns obtain self' out
    where r: "reset example_rng example_task = Inr (self', out)"
    by blast
  have sc: "stimulus_creator example_task = example_creator"
    by (simp add: example_task_def init_def)
  from reset_ready [OF r example_creator_lengths] example_creator_sides obtain ep where ep:
    "self' = example_task\<lparr>state := Some ep\<rparr>"
    "length (stimuli ep) = nat (total_num_trials ep)"
    "length (stimuli_sides ep) = nat (total_num_trials ep)"
    "length (stimuli_strengths ep) = nat (total_num_trials ep)"
    "rewards ep = replicate (nat (total_num_trials ep)) 0"
    "actions ep = replicate (nat (total_num_trials ep)) (0, 0)"
    "model_hidden_states ep = []" "current_trial_idx ep = 0"
    "\<forall>j<nat (total_num_trials ep). stimuli_sides ep ! j = - 1 \<or> stimuli_sides ep ! j = 1"
    unfolding sc by blast
  have "state self' = Some ep"
    by (simp add: ep(1))
  with reset_Inr_D [OF r] have
    npb0: "num_trials_per_block ep =
       truncate_blocks (map (geometric example_rng) [0..<nat (num_blocks example_task)])"
    and tot0: "total_num_trials ep = sum_list (num_trials_per_block ep)"
    and st0: "stimuli ep = concat (map (\<lambda>i. sampled_stimuli (stimulus_creator example_task i
           (num_trials_per_block ep ! i)
           (side_bias_probs example_task (preferred_side_of_block (choice example_rng) i))))
           [0..<length (num_trials_per_block ep)])"
    and sd0: "stimuli_sides ep = concat (map (\<lambda>i. sampled_sides (stimulus_creator example_task i
           (num_trials_per_block ep ! i)
           (side_bias_probs example_task (preferred_side_of_block (choice example_rng) i))))
           [0..<length (num_trials_per_block ep)])"
    by auto
  have npb: "num_trials_per_block ep = [20, 100, 57]"
    using npb0 by (simp add: example_num_trials_per_block)
  have tot: "total_num_trials ep = 177"
    using tot0 by (simp add: npb)
  have idx: "[0..<length (num_trials_per_block ep)] = [0, 1, 2]"
    by (simp add: npb upt_rec)
  have st: "stimuli ep = [0..<20] @ map (\<lambda>i. 1000 + i) [0..<100] @ map (\<lambda>i. 2000 + i) [0..<57]"
    unfolding st0 idx by (simp add: npb sc example_creator_def map_plus_0)
  have sd: "stimuli_sides ep = replicate 20 1 @ replicate 100 (- 1) @ replicate 57 1"
    unfolding sd0 idx by (simp add: npb sc example_creator_def)
  show ?thesis
    apply (rule exI [of _ ep], rule exI [of _ out])
    using r ep st sd by (simp add: tot)
qed

lemma example_20_episode:
  "\<exists>ep out. reset example_rng example_task_20 = Inr (example_task_20\<lparr>state := Some ep\<rparr>, out)
     \<and> total_num_trials ep = 20
     \<and> length (stimuli ep) = 20 \<and> length (stimuli_sides ep) = 20
     \<and> length (stimuli_strengths ep) = 20
     \<and> rewards ep = replicate 20 0 \<and> actions ep = replicate 20 (0, 0)
     \<and> model_hidden_states ep = [] \<and> current_trial_idx ep = 0
     \<and> (\<forall>j<20. stimuli_sides ep ! j = - 1 \<or> stimuli_sides ep ! j = 1)
     \<and> stimuli_sides ep = replicate 20 1
     \<and> stimuli ep = [0..<20]"
proof -
  have "\<exists>self' out. reset example_rng example_task_20 = Inr (self', out)"
    by (rule reset_returns) (simp_all add: example_task_20_def init_def example_creator_def)
  then obtain self' out
    where r: "reset example_rng example_task_20 = Inr (self', out)"
    by blast
  have sc: "stimulus_creator example_task_20 = example_creator"
    by (simp add: example_task_20_def init_def)
  have lens: "\<forall>k n p. length (sampled_stimuli (stimulus_creator example_task_20 k n p)) = nat n
           \<and> length (sampled_sides (stimulus_creator example_task_20 k n p)) = nat n
           \<and> length (sampled_strengths (stimulus_creator example_task_20 k n p)) = nat n"
    by (simp add: sc example_creator_def)
  from reset_ready [OF r lens] example_creator_sides obtain ep where ep:
    "self' = example_task_20\<lparr>state := Some ep\<rparr>"
    "length (stimuli ep) = nat (total_num_trials ep)"
    "length (stimuli_sides ep) = nat (total_num_trials ep)"
    "length (stimuli_strengths ep) = nat (total_num_trials ep)"
    "rewards ep = replicate (nat (total_num_trials ep)) 0"
    "actions ep = replicate (nat (total_num_trials ep)) (0, 0)"
    "model_hidden_states ep = []" "current_trial_idx ep = 0"
    "\<forall>j<nat (total_num_trials ep). stimuli_sides ep ! j = - 1 \<or> stimuli_sides ep ! j = 1"
    unfolding sc by blast
  have "state self' = Some ep"
    by (simp add: ep(1))
  with reset_Inr_D [OF r] have
    npb0: "num_trials_per_block ep =
       truncate_blocks (map (geometric example_rng) [0..<nat (num_blocks example_task_20)])"
    and tot0: "total_num_trials ep = sum_list (num_trials_per_block ep)"
    and st0: "stimuli ep = concat (map (\<lambda>i. sampled_stimuli (stimulus_creator example_task_20 i
           (num_trials_per_block ep ! i)
           (side_bias_probs example_task_20 (preferred_side_of_block (choice example_rng) i))))
           [0..<length (num_trials_per_block ep)])"
    and sd0: "stimuli_sides ep = concat (map (\<lambda>i. sampled_sides (stimulus_creator example_task_20 i
           (num_trials_per_block ep ! i)
           (side_bias_probs example_task_20 (preferred_side_of_block (choice example_rng) i))))
           [0..<length (num_trials_per_block ep)])"
    by auto
  have "[0..<nat (num_blocks example_task_20)] = [0]"
    by (simp add: example_task_20_def init_def)
  then have npb: "num_trials_per_block ep = [20]"
    using npb0 by (simp add: truncate_blocks_map example_rng_def)
  have tot: "total_num_trials ep = 20"
    using tot0 by (simp add: npb)
  have st: "stimuli ep = [0..<20]"
    unfolding st0 by (simp add: npb sc example_creator_def map_plus_0)
  have sd: "stimuli_sides ep = replicate 20 1"
    unfolding sd0 by (simp add: npb sc example_creator_def)
  show ?thesis
    apply (rule exI [of _ ep], rule exI [of _ out])
    using r ep st sd by (simp add: tot)
qed

subsection \<open>The reward\<close>

text \<open>
  Claim C1. A \<open>step\<close> call on an episode that has a trial after the current one returns,
  and the reward it returns is minus the \<open>NLLLoss\<close> of the action distribution at the
  target \<open>(stimuli_sides[current_trial_idx] + 1) / 2\<close>, that is the component of the
  distribution at the index of the correct side. For a trial of target 1 and the
  distribution \<open>[log 0.1, log 0.9]\<close> the reward is \<open>log 0.9\<close>.
\<close>

theorem step_reward:
  assumes "state self = Some ep"
    and "length (stimuli ep) = n" and "length (stimuli_sides ep) = n"
    and "length (stimuli_strengths ep) = n"
    and "length (rewards ep) = n" and "length (actions ep) = n"
    and "stimuli_sides ep ! current_trial_idx ep = - 1
         \<or> stimuli_sides ep ! current_trial_idx ep = 1"
    and "current_trial_idx ep + 1 < n"
  shows "\<exists>self' out loss. step self a h = (self', Inr out)
     \<and> NLLLoss ((stimuli_sides ep ! current_trial_idx ep + 1) div 2) a = Inr loss
     \<and> reward out = - loss
     \<and> reward out
         = [fst a, snd a] ! nat ((stimuli_sides ep ! current_trial_idx ep + 1) div 2)"
proof -
  let ?sd = "stimuli_sides ep ! current_trial_idx ep"
  let ?r = "if ?sd = - 1 then fst a else snd a"
  have "\<exists>self' out. step self a h = (self', Inr out) \<and> reward out = ?r"
    by (subst step_next_trial [OF assms]) simp
  then obtain self' out where s: "step self a h = (self', Inr out)" and r: "reward out = ?r"
    by blast
  have l: "NLLLoss ((?sd + 1) div 2) a = Inr (- ?r)"
    using assms(7) by (auto simp: NLLLoss_def)
  have c: "?r = [fst a, snd a] ! nat ((?sd + 1) div 2)"
    using assms(7) by auto
  show ?thesis
    using s r l c by (intro exI [of _ self'] exI [of _ out] exI [of _ "- ?r"]) simp
qed

theorem step_reward_witness:
  "\<exists>self0 out0 ep self' out. reset example_rng example_task = Inr (self0, out0)
     \<and> state self0 = Some ep
     \<and> (stimuli_sides ep ! current_trial_idx ep + 1) div 2 = 1
     \<and> step self0 (ln (1 / 10), ln (9 / 10)) 7 = (self', Inr out)
     \<and> NLLLoss 1 (ln (1 / 10), ln (9 / 10)) = Inr (- ln (9 / 10))
     \<and> reward out = ln (9 / 10)"
proof -
  from example_episode obtain ep out0 where
    r: "reset example_rng example_task = Inr (example_task\<lparr>state := Some ep\<rparr>, out0)"
    and len: "length (stimuli ep) = 177" "length (stimuli_sides ep) = 177"
      "length (stimuli_strengths ep) = 177"
    and rw: "rewards ep = replicate 177 0" and ac: "actions ep = replicate 177 (0, 0)"
    and idx: "current_trial_idx ep = 0"
    and sd: "stimuli_sides ep = replicate 20 1 @ replicate 100 (- 1) @ replicate 57 1"
    by blast
  let ?self = "example_task\<lparr>state := Some ep\<rparr>"
  have st: "state ?self = Some ep"
    by simp
  have side: "stimuli_sides ep ! current_trial_idx ep = 1"
    by (simp add: idx sd nth_append)
  have lrw: "length (rewards ep) = 177" and lac: "length (actions ep) = 177"
    by (simp_all add: rw ac)
  have next_trial: "current_trial_idx ep + 1 < 177"
    by (simp add: idx)
  let ?a = "(ln (1 / 10), ln (9 / 10)) :: real \<times> real"
  from step_reward [OF st len lrw lac disjI2 [OF side] next_trial, of ?a 7]
  obtain self' out loss where
    s: "step ?self ?a 7 = (self', Inr out)"
    and l: "NLLLoss ((stimuli_sides ep ! current_trial_idx ep + 1) div 2) ?a = Inr loss"
    and rl: "reward out = - loss"
    and c: "reward out = [fst ?a, snd ?a]
               ! nat ((stimuli_sides ep ! current_trial_idx ep + 1) div 2)"
    by blast
  have t: "(stimuli_sides ep ! current_trial_idx ep + 1) div 2 = 1"
    by (simp add: side)
  have rv: "reward out = ln (9 / 10)"
    using c unfolding t by simp
  have lv: "NLLLoss 1 (ln (1 / 10), ln (9 / 10)) = Inr (- ln (9 / 10))"
    using l rl rv unfolding t by simp
  show ?thesis
    using r st t s lv rv by blast
qed

subsection \<open>Index bounds\<close>

text \<open>
  Claim C5. In an episode whose arrays have \<open>total_num_trials\<close> entries, a \<open>step\<close> call
  made when \<open>current_trial_idx < total_num_trials - 1\<close> returns: the read of the side at
  the cursor, the writes of the reward and the action at the cursor and the reads of
  stimulus, side and strength at the incremented cursor are all within bounds. When
  \<open>current_trial_idx = total_num_trials - 1\<close> the reads and writes at the cursor succeed,
  the cursor is incremented, and the read of the stimulus at the incremented cursor is
  past the last trial: nothing guards it, the call raises \<open>IndexError\<close> and leaves the
  writes it made. When the cursor is beyond that, the incremented cursor is past the
  last trial as well, and the call already raises \<open>IndexError\<close> at the read of the side
  at the cursor, with the task unchanged.
\<close>

theorem step_index_bounds:
  assumes "state self = Some ep"
    and "length (stimuli ep) = n" and "length (stimuli_sides ep) = n"
    and "length (stimuli_strengths ep) = n"
    and "length (rewards ep) = n" and "length (actions ep) = n"
    and "int n = total_num_trials ep"
    and "\<forall>j<n. stimuli_sides ep ! j = - 1 \<or> stimuli_sides ep ! j = 1"
  shows "(int (current_trial_idx ep) < total_num_trials ep - 1 \<longrightarrow>
            (\<exists>self' out. step self a h = (self', Inr out))
          \<and> tensor_get (stimuli_sides ep) (current_trial_idx ep)
              = Inr (stimuli_sides ep ! current_trial_idx ep)
          \<and> tensor_set (rewards ep) (current_trial_idx ep) r
              = Inr ((rewards ep)[current_trial_idx ep := r])
          \<and> tensor_set (actions ep) (current_trial_idx ep) a
              = Inr ((actions ep)[current_trial_idx ep := a])
          \<and> tensor_get (stimuli ep) (current_trial_idx ep + 1)
              = Inr (stimuli ep ! (current_trial_idx ep + 1))
          \<and> tensor_get (stimuli_sides ep) (current_trial_idx ep + 1)
              = Inr (stimuli_sides ep ! (current_trial_idx ep + 1))
          \<and> tensor_get (stimuli_strengths ep) (current_trial_idx ep + 1)
              = Inr (stimuli_strengths ep ! (current_trial_idx ep + 1)))
     \<and> (int (current_trial_idx ep) = total_num_trials ep - 1 \<longrightarrow>
            step self a h =
              (self\<lparr>state := Some (ep\<lparr>
                 rewards := (rewards ep)[current_trial_idx ep :=
                   (if stimuli_sides ep ! current_trial_idx ep = - 1 then fst a else snd a)],
                 actions := (actions ep)[current_trial_idx ep := a],
                 model_hidden_states := model_hidden_states ep @ [h],
                 current_trial_idx := current_trial_idx ep + 1\<rparr>)\<rparr>,
               Inl IndexError)
          \<and> tensor_get (stimuli_sides ep) (current_trial_idx ep)
              = Inr (stimuli_sides ep ! current_trial_idx ep)
          \<and> tensor_get (stimuli ep) (current_trial_idx ep + 1) = Inl IndexError
          \<and> tensor_get (stimuli_sides ep) (current_trial_idx ep + 1) = Inl IndexError
          \<and> tensor_get (stimuli_strengths ep) (current_trial_idx ep + 1) = Inl IndexError)
     \<and> (total_num_trials ep \<le> int (current_trial_idx ep) \<longrightarrow>
            step self a h = (self, Inl IndexError)
          \<and> tensor_get (stimuli_sides ep) (current_trial_idx ep) = Inl IndexError
          \<and> tensor_get (stimuli ep) (current_trial_idx ep + 1) = Inl IndexError
          \<and> tensor_get (stimuli_sides ep) (current_trial_idx ep + 1) = Inl IndexError
          \<and> tensor_get (stimuli_strengths ep) (current_trial_idx ep + 1) = Inl IndexError)"
proof -
  let ?i = "current_trial_idx ep"
  have inside: "(\<exists>self' out. step self a h = (self', Inr out))
          \<and> tensor_get (stimuli_sides ep) ?i = Inr (stimuli_sides ep ! ?i)
          \<and> tensor_set (rewards ep) ?i r = Inr ((rewards ep)[?i := r])
          \<and> tensor_set (actions ep) ?i a = Inr ((actions ep)[?i := a])
          \<and> tensor_get (stimuli ep) (?i + 1) = Inr (stimuli ep ! (?i + 1))
          \<and> tensor_get (stimuli_sides ep) (?i + 1) = Inr (stimuli_sides ep ! (?i + 1))
          \<and> tensor_get (stimuli_strengths ep) (?i + 1) = Inr (stimuli_strengths ep ! (?i + 1))"
    if "int ?i < total_num_trials ep - 1"
  proof -
    from that assms(7) have i: "?i + 1 < n" "?i < n"
      by linarith+
    have side: "stimuli_sides ep ! ?i = - 1 \<or> stimuli_sides ep ! ?i = 1"
      using assms(8) i(2) by blast
    have "\<exists>self' out. step self a h = (self', Inr out)"
      by (subst step_next_trial [OF assms(1-6) side i(1)]) simp
    then show ?thesis
      using i assms(2-6) by (simp add: tensor_get_def tensor_set_def)
  qed
  have last: "step self a h =
              (self\<lparr>state := Some (ep\<lparr>
                 rewards := (rewards ep)[?i :=
                   (if stimuli_sides ep ! ?i = - 1 then fst a else snd a)],
                 actions := (actions ep)[?i := a],
                 model_hidden_states := model_hidden_states ep @ [h],
                 current_trial_idx := ?i + 1\<rparr>)\<rparr>,
               Inl IndexError)
          \<and> tensor_get (stimuli_sides ep) ?i = Inr (stimuli_sides ep ! ?i)
          \<and> tensor_get (stimuli ep) (?i + 1) = Inl IndexError
          \<and> tensor_get (stimuli_sides ep) (?i + 1) = Inl IndexError
          \<and> tensor_get (stimuli_strengths ep) (?i + 1) = Inl IndexError"
    if "int ?i = total_num_trials ep - 1"
  proof -
    from that assms(7) have i: "?i + 1 = n" "?i < n"
      by linarith+
    have side: "stimuli_sides ep ! ?i = - 1 \<or> stimuli_sides ep ! ?i = 1"
      using assms(8) i(2) by blast
    show ?thesis
      using step_last_trial [OF assms(1-6) side i(1), of a h] i assms(2-4)
      by (simp add: tensor_get_def)
  qed
  have beyond: "step self a h = (self, Inl IndexError)
          \<and> tensor_get (stimuli_sides ep) ?i = Inl IndexError
          \<and> tensor_get (stimuli ep) (?i + 1) = Inl IndexError
          \<and> tensor_get (stimuli_sides ep) (?i + 1) = Inl IndexError
          \<and> tensor_get (stimuli_strengths ep) (?i + 1) = Inl IndexError"
    if "total_num_trials ep \<le> int ?i"
  proof -
    from that assms(7) have i: "n \<le> ?i"
      by linarith
    show ?thesis
      using step_beyond [OF assms(1,3) i, of a h] i assms(2-4)
      by (simp add: tensor_get_def)
  qed
  from inside last beyond show ?thesis
    by blast
qed

theorem step_index_bounds_witness:
  "\<exists>self0 out0 self1 out1 self19 outs self20 ep20.
       reset example_rng example_task_20 = Inr (self0, out0)
     \<and> step self0 (ln (1 / 2), ln (1 / 2)) 7 = (self1, Inr out1)
     \<and> step_calls self0 (replicate 19 ((ln (1 / 2), ln (1 / 2)), 7)) = (self19, Inr outs)
     \<and> step self19 (ln (1 / 2), ln (1 / 2)) 7 = (self20, Inl IndexError)
     \<and> state self20 = Some ep20 \<and> current_trial_idx ep20 = 20
     \<and> total_num_trials ep20 = 20 \<and> length (stimuli ep20) = 20
     \<and> tensor_get (stimuli ep20) 20 = Inl IndexError
     \<and> length (model_hidden_states ep20) = 20
     \<and> step self20 (ln (1 / 2), ln (1 / 2)) 7 = (self20, Inl IndexError)"
proof -
  let ?a = "(ln (1 / 2), ln (1 / 2)) :: real \<times> real"
  let ?ds = "replicate 19 (?a, 7 :: nat)"
  from example_20_episode obtain ep0 out0 where
    r: "reset example_rng example_task_20 = Inr (example_task_20\<lparr>state := Some ep0\<rparr>, out0)"
    and tot0: "total_num_trials ep0 = 20"
    and len0: "length (stimuli ep0) = 20" "length (stimuli_sides ep0) = 20"
      "length (stimuli_strengths ep0) = 20"
    and rw0: "rewards ep0 = replicate 20 0" and ac0: "actions ep0 = replicate 20 (0, 0)"
    and mhs0: "model_hidden_states ep0 = []"
    and idx0: "current_trial_idx ep0 = 0"
    and sides0: "\<forall>j<20. stimuli_sides ep0 ! j = - 1 \<or> stimuli_sides ep0 ! j = 1"
    by blast
  let ?self0 = "example_task_20\<lparr>state := Some ep0\<rparr>"
  have st0: "state ?self0 = Some ep0"
    by simp
  have lrw0: "length (rewards ep0) = 20" and lac0: "length (actions ep0) = 20"
    by (simp_all add: rw0 ac0)
  have n0: "int 20 = total_num_trials ep0"
    by (simp add: tot0)
  have "int (current_trial_idx ep0) < total_num_trials ep0 - 1"
    by (simp add: idx0 tot0)
  with step_index_bounds [OF st0 len0 lrw0 lac0 n0 sides0, of ?a 7 0]
  obtain self1 out1 where s1: "step ?self0 ?a 7 = (self1, Inr out1)"
    by blast
  have b: "current_trial_idx ep0 + length ?ds < 20"
    by (simp add: idx0)
  from step_calls_returns [OF st0 len0 lrw0 lac0 sides0 b]
  obtain ep19 outs where
    c: "step_calls ?self0 ?ds = (?self0\<lparr>state := Some ep19\<rparr>, Inr outs)"
    and idx19: "current_trial_idx ep19 = current_trial_idx ep0 + length ?ds"
    and mhs19: "model_hidden_states ep19 = model_hidden_states ep0 @ map snd ?ds"
    and lrw19: "length (rewards ep19) = 20" and lac19: "length (actions ep19) = 20"
    and same: "stimuli ep19 = stimuli ep0" "stimuli_sides ep19 = stimuli_sides ep0"
      "stimuli_strengths ep19 = stimuli_strengths ep0"
      "total_num_trials ep19 = total_num_trials ep0"
    by blast
  let ?self19 = "?self0\<lparr>state := Some ep19\<rparr>"
  have st19: "state ?self19 = Some ep19"
    by simp
  have len19: "length (stimuli ep19) = 20" "length (stimuli_sides ep19) = 20"
    "length (stimuli_strengths ep19) = 20"
    by (simp_all add: same len0)
  have n19: "int 20 = total_num_trials ep19"
    by (simp add: same tot0)
  have sides19: "\<forall>j<20. stimuli_sides ep19 ! j = - 1 \<or> stimuli_sides ep19 ! j = 1"
    using sides0 by (simp add: same)
  define ep20 where "ep20 = ep19\<lparr>
       rewards := (rewards ep19)[current_trial_idx ep19 :=
         (if stimuli_sides ep19 ! current_trial_idx ep19 = - 1 then fst ?a else snd ?a)],
       actions := (actions ep19)[current_trial_idx ep19 := ?a],
       model_hidden_states := model_hidden_states ep19 @ [7],
       current_trial_idx := current_trial_idx ep19 + 1\<rparr>"
  let ?self20 = "?self19\<lparr>state := Some ep20\<rparr>"
  have "int (current_trial_idx ep19) = total_num_trials ep19 - 1"
    by (simp add: idx19 idx0 same tot0)
  with step_index_bounds [OF st19 len19 lrw19 lac19 n19 sides19, of ?a 7 0]
  have s20: "step ?self19 ?a 7 = (?self20, Inl IndexError)"
    unfolding ep20_def by blast
  have st20: "state ?self20 = Some ep20"
    by simp
  have len20: "length (stimuli ep20) = 20" "length (stimuli_sides ep20) = 20"
    "length (stimuli_strengths ep20) = 20"
    "length (rewards ep20) = 20" "length (actions ep20) = 20"
    by (simp_all add: ep20_def len19 lrw19 lac19)
  have n20: "int 20 = total_num_trials ep20"
    by (simp add: ep20_def same tot0)
  have sides20: "\<forall>j<20. stimuli_sides ep20 ! j = - 1 \<or> stimuli_sides ep20 ! j = 1"
    using sides19 by (simp add: ep20_def)
  have idx20: "current_trial_idx ep20 = 20"
    by (simp add: ep20_def idx19 idx0)
  have "total_num_trials ep20 \<le> int (current_trial_idx ep20)"
    using n20 by (simp add: idx20)
  with step_index_bounds [OF st20 len20 n20 sides20, of ?a 7 0]
  have s21: "step ?self20 ?a 7 = (?self20, Inl IndexError)"
    and g: "tensor_get (stimuli ep20) (current_trial_idx ep20 + 1) = Inl IndexError"
    by blast+
  have g20: "tensor_get (stimuli ep20) 20 = Inl IndexError"
    by (simp add: tensor_get_def len20)
  have mhs20: "length (model_hidden_states ep20) = 20"
    by (simp add: ep20_def mhs19 mhs0)
  have tot20: "total_num_trials ep20 = 20"
    using n20 by simp
  show ?thesis
    using r s1 c s20 st20 idx20 tot20 len20(1) g20 mhs20 s21 by blast
qed

subsection \<open>The done flag\<close>

text \<open>
  Claim C2. The \<open>done\<close> flag returned by \<open>step\<close> is the comparison
  \<open>current_trial_idx + 1 = total_num_trials\<close> made with the cursor that the call has
  already incremented. Hence in a call followed by further calls, all with a trial after
  them, the call of index \<open>j\<close> (from 0) returns \<open>done\<close> exactly when the cursor before
  the calls plus \<open>j + 2\<close> is \<open>total_num_trials\<close>. From cursor 0 in an episode of 20
  trials this is the call of index 18, the 19th call.
\<close>

theorem step_done_flag:
  assumes "state self = Some ep"
    and "length (stimuli ep) = n" and "length (stimuli_sides ep) = n"
    and "length (stimuli_strengths ep) = n"
    and "length (rewards ep) = n" and "length (actions ep) = n"
    and "\<forall>j<n. stimuli_sides ep ! j = - 1 \<or> stimuli_sides ep ! j = 1"
    and "current_trial_idx ep + length ((a, h) # ds) < n"
  shows "(\<exists>self' ep' out. step self a h = (self', Inr out) \<and> state self' = Some ep'
           \<and> current_trial_idx ep' = current_trial_idx ep + 1
           \<and> total_num_trials ep' = total_num_trials ep
           \<and> done_flag out = (int (current_trial_idx ep') + 1 = total_num_trials ep'))
     \<and> (\<exists>self'' outs. step_calls self ((a, h) # ds) = (self'', Inr outs)
           \<and> length outs = length ((a, h) # ds)
           \<and> (\<forall>j<length ((a, h) # ds).
                 done_flag (outs ! j)
                  = (int (current_trial_idx ep + j + 1) + 1 = total_num_trials ep)))"
proof
  have i: "current_trial_idx ep + 1 < n" "current_trial_idx ep < n"
    using assms(8) by simp_all
  have side: "stimuli_sides ep ! current_trial_idx ep = - 1
     \<or> stimuli_sides ep ! current_trial_idx ep = 1"
    using assms(7) i(2) by blast
  show "\<exists>self' ep' out. step self a h = (self', Inr out) \<and> state self' = Some ep'
           \<and> current_trial_idx ep' = current_trial_idx ep + 1
           \<and> total_num_trials ep' = total_num_trials ep
           \<and> done_flag out = (int (current_trial_idx ep') + 1 = total_num_trials ep')"
    by (subst step_next_trial [OF assms(1-6) side i(1)]) simp
next
  from step_calls_returns [OF assms] obtain ep' outs where
    c: "step_calls self ((a, h) # ds) = (self\<lparr>state := Some ep'\<rparr>, Inr outs)"
    and len: "length outs = length ((a, h) # ds)"
    and each: "\<forall>j<length ((a, h) # ds).
         done_flag (outs ! j) = (int (current_trial_idx ep + j + 1) + 1 = total_num_trials ep)"
    by blast
  then show "\<exists>self'' outs. step_calls self ((a, h) # ds) = (self'', Inr outs)
           \<and> length outs = length ((a, h) # ds)
           \<and> (\<forall>j<length ((a, h) # ds).
                 done_flag (outs ! j)
                  = (int (current_trial_idx ep + j + 1) + 1 = total_num_trials ep))"
    by blast
qed

theorem step_done_flag_witness:
  "\<exists>self0 out0 ep0 self1 out1 self19 outs.
       reset example_rng example_task_20 = Inr (self0, out0)
     \<and> state self0 = Some ep0 \<and> total_num_trials ep0 = 20 \<and> current_trial_idx ep0 = 0
     \<and> step self0 (ln (1 / 2), ln (1 / 2)) 7 = (self1, Inr out1) \<and> \<not> done_flag out1
     \<and> step_calls self0 (replicate 19 ((ln (1 / 2), ln (1 / 2)), 7)) = (self19, Inr outs)
     \<and> map done_flag outs = replicate 18 False @ [True]
     \<and> snd (step self19 (ln (1 / 2), ln (1 / 2)) 7) = Inl IndexError"
proof -
  let ?a = "(ln (1 / 2), ln (1 / 2)) :: real \<times> real"
  let ?ds = "replicate 18 (?a, 7 :: nat)"
  from example_20_episode obtain ep0 out0 where
    r: "reset example_rng example_task_20 = Inr (example_task_20\<lparr>state := Some ep0\<rparr>, out0)"
    and tot0: "total_num_trials ep0 = 20"
    and len0: "length (stimuli ep0) = 20" "length (stimuli_sides ep0) = 20"
      "length (stimuli_strengths ep0) = 20"
    and rw0: "rewards ep0 = replicate 20 0" and ac0: "actions ep0 = replicate 20 (0, 0)"
    and idx0: "current_trial_idx ep0 = 0"
    and sides0: "\<forall>j<20. stimuli_sides ep0 ! j = - 1 \<or> stimuli_sides ep0 ! j = 1"
    by blast
  let ?self0 = "example_task_20\<lparr>state := Some ep0\<rparr>"
  have st0: "state ?self0 = Some ep0"
    by simp
  have lrw0: "length (rewards ep0) = 20" and lac0: "length (actions ep0) = 20"
    by (simp_all add: rw0 ac0)
  have b: "current_trial_idx ep0 + length ((?a, 7) # ?ds) < 20"
    by (simp add: idx0)
  have ds: "(?a, 7) # ?ds = replicate 19 (?a, 7)"
    by (simp add: numeral_eq_Suc)
  from step_done_flag [OF st0 len0 lrw0 lac0 sides0 b]
  obtain self1 ep1 out1 self19 outs where
    s1: "step ?self0 ?a 7 = (self1, Inr out1)"
    and st1: "state self1 = Some ep1"
    and idx1: "current_trial_idx ep1 = current_trial_idx ep0 + 1"
    and tot1: "total_num_trials ep1 = total_num_trials ep0"
    and d1: "done_flag out1 = (int (current_trial_idx ep1) + 1 = total_num_trials ep1)"
    and c: "step_calls ?self0 ((?a, 7) # ?ds) = (self19, Inr outs)"
    and len: "length outs = length ((?a, 7) # ?ds)"
    and each: "\<forall>j<length ((?a, 7) # ?ds).
        done_flag (outs ! j) = (int (current_trial_idx ep0 + j + 1) + 1 = total_num_trials ep0)"
    by blast
  have nd1: "\<not> done_flag out1"
    by (simp add: d1 idx1 tot1 idx0 tot0)
  have len19: "length outs = 19"
    using len by simp
  have each19: "done_flag (outs ! j) = (j = 18)" if "j < 19" for j
  proof -
    from that have "j < length ((?a, 7) # ?ds)"
      by simp
    with each have "done_flag (outs ! j)
        = (int (current_trial_idx ep0 + j + 1) + 1 = total_num_trials ep0)"
      by blast
    then show ?thesis
      by (simp add: idx0 tot0)
  qed
  have flags: "map done_flag outs = replicate 18 False @ [True]"
  proof (rule nth_equalityI)
    show "length (map done_flag outs) = length (replicate 18 False @ [True])"
      by (simp add: len19)
  next
    fix j
    assume "j < length (map done_flag outs)"
    then have j: "j < 19"
      by (simp add: len19)
    show "map done_flag outs ! j = (replicate 18 False @ [True]) ! j"
    proof (cases "j < 18")
      case True
      then show ?thesis
        using each19 [OF j] j by (simp add: len19 nth_append)
    next
      case False
      with j have "j = 18"
        by simp
      then show ?thesis
        using each19 [OF j] by (simp add: len19 nth_append)
    qed
  qed
  from step_calls_returns [OF st0 len0 lrw0 lac0 sides0 b]
  obtain ep19 outs' where
    c': "step_calls ?self0 ((?a, 7) # ?ds) = (?self0\<lparr>state := Some ep19\<rparr>, Inr outs')"
    and idx19: "current_trial_idx ep19 = current_trial_idx ep0 + length ((?a, 7) # ?ds)"
    and lrw19: "length (rewards ep19) = 20" and lac19: "length (actions ep19) = 20"
    and same: "stimuli ep19 = stimuli ep0" "stimuli_sides ep19 = stimuli_sides ep0"
      "stimuli_strengths ep19 = stimuli_strengths ep0"
    by blast
  have self19: "self19 = ?self0\<lparr>state := Some ep19\<rparr>"
    using c c' by simp
  have st19: "state (?self0\<lparr>state := Some ep19\<rparr>) = Some ep19"
    by simp
  have len19': "length (stimuli ep19) = 20" "length (stimuli_sides ep19) = 20"
    "length (stimuli_strengths ep19) = 20"
    by (simp_all add: same len0)
  have i19: "current_trial_idx ep19 + 1 = 20"
    by (simp add: idx19 idx0)
  have side19: "stimuli_sides ep19 ! current_trial_idx ep19 = - 1
     \<or> stimuli_sides ep19 ! current_trial_idx ep19 = 1"
    using sides0 by (simp add: same idx19 idx0)
  have s20: "snd (step self19 ?a 7) = Inl IndexError"
    unfolding self19
    by (subst step_last_trial [OF st19 len19' lrw19 lac19 side19 i19]) simp
  show ?thesis
    using r st0 tot0 idx0 s1 nd1 c [unfolded ds] flags s20 by blast
qed

subsection \<open>What a call writes and what it leaves\<close>



end
